theory Spec2Isabelle
  imports Complex_Main
begin


section \<open>Python string primitives\<close>

text \<open>
  Texts are Python \<open>str\<close> values. They are modelled as \<open>string\<close>, a list of 8-bit
  characters read as the Unicode code points 0 to 255 (ASCII and Latin-1); the predicates
  below are Python's \<open>str\<close> methods restricted to that range. The spell corrector,
  whose result depends on how \<open>lower()\<close> treats characters beyond that range, is
  modelled a second time on a larger alphabet.
\<close>

definition ord :: "char \<Rightarrow> nat" where
  "ord c = of_char c"

definition chr :: "nat \<Rightarrow> char" where
  "chr n = char_of n"

text \<open>\<open>str.isspace\<close> on one character: TAB..CR, FS..US, space, NEL and NBSP.\<close>

definition isspace :: "char \<Rightarrow> bool" where
  "isspace c = ((9 \<le> ord c \<and> ord c \<le> 13) \<or> (28 \<le> ord c \<and> ord c \<le> 32)
                \<or> ord c = 133 \<or> ord c = 160)"

text \<open>\<open>str.isdigit\<close> on one character: 0..9 and the superscripts two, three and one.\<close>

definition isdigit :: "char \<Rightarrow> bool" where
  "isdigit c = ((48 \<le> ord c \<and> ord c \<le> 57) \<or> ord c = 178 \<or> ord c = 179 \<or> ord c = 185)"

text \<open>The regular-expression class \<open>\d\<close> (decimal digits only).\<close>

definition re_digit :: "char \<Rightarrow> bool" where
  "re_digit c = (48 \<le> ord c \<and> ord c \<le> 57)"

definition isalpha :: "char \<Rightarrow> bool" where
  "isalpha c = ((65 \<le> ord c \<and> ord c \<le> 90) \<or> (97 \<le> ord c \<and> ord c \<le> 122)
                \<or> ord c = 170 \<or> ord c = 181 \<or> ord c = 186
                \<or> (192 \<le> ord c \<and> ord c \<le> 214) \<or> (216 \<le> ord c \<and> ord c \<le> 246)
                \<or> 248 \<le> ord c)"

definition isupper :: "char \<Rightarrow> bool" where
  "isupper c = ((65 \<le> ord c \<and> ord c \<le> 90) \<or> (192 \<le> ord c \<and> ord c \<le> 214)
                \<or> (216 \<le> ord c \<and> ord c \<le> 222))"

text \<open>The regular-expression class \<open>\w\<close>: alphanumeric characters and the underscore.\<close>

definition re_word :: "char \<Rightarrow> bool" where
  "re_word c = (isalpha c \<or> isdigit c \<or> ord c = 95
                \<or> (188 \<le> ord c \<and> ord c \<le> 190))"

definition lower_char :: "char \<Rightarrow> char" where
  "lower_char c = (if isupper c then chr (ord c + 32) else c)"

definition lower :: "string \<Rightarrow> string" where
  "lower s = map lower_char s"

definition str_isdigit :: "string \<Rightarrow> bool" where
  "str_isdigit s = (s \<noteq> [] \<and> list_all isdigit s)"

definition str_isalpha :: "string \<Rightarrow> bool" where
  "str_isalpha s = (s \<noteq> [] \<and> list_all isalpha s)"

text \<open>
  Splitting at the characters that satisfy \<open>sep\<close>, dropping empty pieces; \<open>cur\<close> is the
  piece being read. \<open>str.split()\<close> splits at white space; the maximal runs of \<open>\w\<close>
  characters are the pieces between non-word characters. Splitting and joining do not depend
  on what the characters are, so both are defined for lists of any type.
\<close>

fun split_at :: "('a \<Rightarrow> bool) \<Rightarrow> 'a list \<Rightarrow> 'a list \<Rightarrow> 'a list list" where
  "split_at sep cur [] = (if cur = [] then [] else [cur])"
| "split_at sep cur (c # cs) =
     (if sep c then (if cur = [] then split_at sep [] cs else cur # split_at sep [] cs)
      else split_at sep (cur @ [c]) cs)"

definition split :: "string \<Rightarrow> string list" where
  "split s = split_at isspace [] s"

definition word_runs :: "string \<Rightarrow> string list" where
  "word_runs s = split_at (\<lambda>c. \<not> re_word c) [] s"

fun join :: "'a list \<Rightarrow> 'a list list \<Rightarrow> 'a list" where
  "join sep [] = []"
| "join sep [x] = x"
| "join sep (x # y # ys) = x @ sep @ join sep (y # ys)"

definition strip :: "string \<Rightarrow> string" where
  "strip s = rev (dropWhile isspace (rev (dropWhile isspace s)))"

definition startswith :: "string \<Rightarrow> string \<Rightarrow> bool" where
  "startswith s p = (take (length p) s = p)"

text \<open>\<open>sub in s\<close> for strings.\<close>

fun contains :: "string \<Rightarrow> string \<Rightarrow> bool" where
  "contains [] sub = (sub = [])"
| "contains (c # cs) sub = (startswith (c # cs) sub \<or> contains cs sub)"

text \<open>
  A token in the sense of \<open>split\<close>: not empty and free of white space. A lower-case
  string has no upper-case character.
\<close>

definition is_token :: "string \<Rightarrow> bool" where
  "is_token t = (t \<noteq> [] \<and> list_all (\<lambda>c. \<not> isspace c) t)"

definition no_upper :: "string \<Rightarrow> bool" where
  "no_upper s = list_all (\<lambda>c. \<not> isupper c) s"

text \<open>
  The number of matches that \<open>findall\<close> reports for a pattern \<open>\b(w1|w2|...)\b\<close> whose
  alternatives are words of letters: a match starts and ends at a word boundary, so it is a
  maximal run of word characters that equals one of the alternatives. The callers pass
  lower-cased text, on which the \<open>IGNORECASE\<close> flag changes nothing in this range.
\<close>

definition findall_count :: "string list \<Rightarrow> string \<Rightarrow> nat" where
  "findall_count alternatives text =
     length (filter (\<lambda>r. r \<in> set alternatives) (word_runs text))"

definition re_search_words :: "string list \<Rightarrow> string \<Rightarrow> bool" where
  "re_search_words alternatives text = (findall_count alternatives text > 0)"

section \<open>Step 4: the code-mix detector (code\_mix\_detector.py)\<close>

text \<open>
  Confidences are Python floats; they are modelled as reals (rounding and NaN are outside
  the model).

  A tagged token is the dictionary that Step 3 builds for each token; the detector reads
  its \<open>script\<close> key (here \<open>script_tag\<close>) with the default \<open>Unknown\<close>.
\<close>

record tagged_token =
  token_text :: string
  script_tag :: "string option"

text \<open>
  The result dictionary of the detector: \<open>label\<close>, \<open>confidence\<close>, \<open>method\<close> (here \<open>detection_method\<close>), the
  \<open>romanized_language\<close> entry of its \<open>details\<close> (absent in most branches;
  here \<open>details_romanized_language\<close>), and the
  \<open>skip_step5\<close> key that only \<open>detect\<close> adds.
\<close>

record detection =
  label :: string
  confidence :: real
  detection_method :: string
  details_romanized_language :: "string option"
  skip_step5 :: "bool option"

definition get_script :: "tagged_token \<Rightarrow> string" where
  "get_script t = (case script_tag t of None \<Rightarrow> ''Unknown'' | Some s \<Rightarrow> s)"

definition native_scripts :: "string list" where
  "native_scripts = [''Devanagari'', ''Bengali'', ''Tamil'', ''Telugu'', ''Gujarati'',
                     ''Kannada'', ''Malayalam'', ''Punjabi'', ''Odia'', ''Gurmukhi'']"

definition native_langs :: "string list" where
  "native_langs = [''hi'', ''bn'', ''ta'', ''te'', ''gu'', ''kn'', ''ml'', ''pa'', ''or'',
                   ''mr'', ''sa'', ''as'']"

definition word_scripts_of :: "tagged_token list \<Rightarrow> string list" where
  "word_scripts_of tagged_tokens =
     filter (\<lambda>s. s \<notin> set [''Number'', ''Digit'', ''Other'', ''Unknown'', ''Space''])
            (map get_script tagged_tokens)"

definition hint_in :: "string option \<Rightarrow> string list \<Rightarrow> bool" where
  "hint_in language_hint langs =
     (case language_hint of None \<Rightarrow> False | Some l \<Rightarrow> l \<in> set langs)"

definition CONFIDENCE_THRESHOLD :: real where
  "CONFIDENCE_THRESHOLD = 0.85"

definition ambiguous_heuristic :: detection where
  "ambiguous_heuristic =
     \<lparr>label = ''ambiguous'', confidence = 0.5, detection_method = ''heuristic'',
      details_romanized_language = None, skip_step5 = None\<rparr>"

text \<open>\<open>CodeMixDetector.detect_heuristic\<close>: the Fast Lane, Rule A before Rule B.\<close>

definition detect_heuristic ::
  "string \<Rightarrow> tagged_token list \<Rightarrow> string option \<Rightarrow> real \<Rightarrow> detection" where
  "detect_heuristic text tagged_tokens language_hint language_confidence =
     (if text = [] \<or> tagged_tokens = [] then ambiguous_heuristic
      else let word_scripts = word_scripts_of tagged_tokens in
        if word_scripts = [] then ambiguous_heuristic
        else let all_native = list_all (\<lambda>s. s \<in> set native_scripts) word_scripts;
                 all_latin = list_all (\<lambda>s. s = ''Latin'') word_scripts in
          if all_native \<and> hint_in language_hint native_langs then
            \<lparr>label = ''pure_native'', confidence = 0.95, detection_method = ''fast_lane'',
             details_romanized_language = None, skip_step5 = None\<rparr>
          else if all_latin \<and> language_hint = Some ''en''
                  \<and> language_confidence > CONFIDENCE_THRESHOLD then
            \<lparr>label = ''pure_english'', confidence = language_confidence,
             detection_method = ''fast_lane'', details_romanized_language = None, skip_step5 = None\<rparr>
          else ambiguous_heuristic)"

text \<open>\<open>CodeMixDetector.should_skip_step5\<close>.\<close>

definition should_skip_step5 :: "detection \<Rightarrow> bool" where
  "should_skip_step5 detection_result =
     (if label detection_result = ''pure_native'' \<and> confidence detection_result \<ge> 0.75
      then True
      else if label detection_result = ''pure_english''
      then (if confidence detection_result \<ge> 0.75 then True else False)
      else False)"


text \<open>
  The word lists of \<open>ROMANIZED_PATTERNS\<close> and \<open>PURE_ENGLISH_PATTERNS\<close>, one list for each
  regular expression \<open>\b(...)\b\<close>, in the order of the source.
\<close>

definition ROMANIZED_PATTERNS :: "(string \<times> string list list) list" where
  "ROMANIZED_PATTERNS =
    [(''hindi'',
       [[''hai'', ''hain'', ''ho'', ''ka'', ''ki'', ''ke'', ''ko'', ''se'', ''me'', ''ne'', ''bhi'',
         ''nahi'', ''kya'', ''kaise'', ''kahan''],
        [''aur'', ''yah'', ''woh'', ''ek'', ''do'', ''teen'', ''char'', ''panch'', ''saat'', ''aath'',
         ''nau'', ''das''],
        [''kharidna'', ''chahiye'', ''chahta'', ''chahti'', ''milega'', ''kitna'', ''kitne''],
        [''accha'', ''bahut'', ''bohot'', ''thoda'', ''jyada'', ''kam'', ''zyada''],
        [''mujhe'', ''mujhko'', ''tumhe'', ''tumko'', ''usko'', ''dikhao'', ''dikhaye'',
         ''dikhaiye'']]),
     (''bengali'',
       [[''ache'', ''achhe'', ''hobe'', ''korbo'', ''kora'', ''kore'', ''keno'', ''kothay'',
         ''kivabe''],
        [''taka'', ''takar'', ''dam'', ''dam'', ''koto'', ''kemon'', ''bhalo'', ''kharap''],
        [''ekta'', ''duto'', ''tin'', ''char'', ''panch'', ''choy'', ''saat'', ''aat'', ''noy'',
         ''dosh''],
        [''ami'', ''tumi'', ''apni'', ''amar'', ''tomar'', ''apnar'', ''oder'', ''tader''],
        [''amake'', ''amae'', ''amay'', ''tomake'', ''tomay'', ''dekhao'', ''dekhaye'', ''ar'',
         ''aar'', ''ebong'']]),
     (''tamil'',
       [[''enna'', ''eppadi'', ''enga'', ''eppo'', ''yaar'', ''yenna'', ''yedhu''],
        [''irukku'', ''irukkum'', ''seiyyum'', ''panna'', ''pannunga''],
        [''nalla'', ''romba'', ''konjam'', ''adhigam'', ''kammiya'']]),
     (''telugu'',
       [[''undi'', ''undhi'', ''cheyyi'', ''cheyyandi'', ''ela'', ''ekkada'', ''eppudu''],
        [''manchidi'', ''chala'', ''konchem'', ''ekkuva'', ''thakkuva'']])]"

definition PURE_ENGLISH_PATTERNS :: "string list list" where
  "PURE_ENGLISH_PATTERNS =
    [[''the'', ''a'', ''an'', ''is'', ''are'', ''was'', ''were'', ''be'', ''been'', ''being''],
     [''have'', ''has'', ''had'', ''do'', ''does'', ''did'', ''will'', ''would'', ''should'',
      ''could''],
     [''in'', ''on'', ''at'', ''to'', ''from'', ''with'', ''by'', ''for'', ''of'', ''about'',
      ''under'', ''over'', ''below'', ''above''],
     [''this'', ''that'', ''these'', ''those'', ''what'', ''which'', ''who'', ''when'', ''where''],
     [''best'', ''good'', ''great'', ''nice'', ''cheap'', ''expensive'', ''quality'', ''latest'',
      ''new''],
     [''buy'', ''purchase'', ''order'', ''price'', ''cost'', ''sale'', ''discount'', ''offer'',
      ''deal''],
     [''phone'', ''mobile'', ''smartphone'', ''laptop'', ''tablet'', ''headphone'', ''camera'',
      ''charger''],
     [''wireless'', ''bluetooth'', ''wired'', ''fast'', ''charging'', ''battery'', ''storage''],
     [''samsung'', ''iphone'', ''oneplus'', ''realme'', ''xiaomi'', ''oppo'', ''vivo'', ''nokia'',
      ''apple''],
     [''rupees'', ''india'', ''online'', ''shopping'', ''delivery'', ''warranty'']]"

text \<open>
  \<open>CodeMixDetector.detect_romanized_language\<close>: the matches of each language are counted
  over all its patterns; a language with a match scores \<open>min (matches / 2) 1\<close>, and the
  first language of highest score is returned (\<open>max\<close> keeps the first maximum).
\<close>

definition lang_scores :: "string \<Rightarrow> (string \<times> real) list" where
  "lang_scores text =
     concat (map (\<lambda>(lang, patterns).
        let total_matches = sum_list (map (\<lambda>p. findall_count p text) patterns)
        in if total_matches > 0 then [(lang, min (real total_matches / 2) 1)] else [])
      ROMANIZED_PATTERNS)"

fun max_by_snd :: "(string \<times> real) \<Rightarrow> (string \<times> real) list \<Rightarrow> (string \<times> real)" where
  "max_by_snd best [] = best"
| "max_by_snd best (x # xs) = max_by_snd (if snd x > snd best then x else best) xs"

definition cm_detect_romanized_language :: "string \<Rightarrow> string \<times> real" where
  "cm_detect_romanized_language text =
     (if text = [] then (''none'', 0)
      else case lang_scores text of
             [] \<Rightarrow> (''none'', 0)
           | x # xs \<Rightarrow> max_by_snd x xs)"

definition count_english_markers :: "string \<Rightarrow> nat" where
  "count_english_markers text =
     length (filter (\<lambda>p. re_search_words p text) PURE_ENGLISH_PATTERNS)"

definition ambiguous_fallback :: detection where
  "ambiguous_fallback =
     \<lparr>label = ''ambiguous'', confidence = 0.5, detection_method = ''smart_checkpoint_fallback'',
      details_romanized_language = None, skip_step5 = None\<rparr>"

text \<open>
  \<open>CodeMixDetector._classify_smart_checkpoint\<close>. The quantized classifier is an external
  model: when a session is loaded, its answer for the text and tokens is whatever
  \<open>onnx\<close> returns (a label with its probability, or \<open>ambiguous\<close> with method
  \<open>onnx_failed\<close>). The pipeline constructs the detector without a session.
\<close>

definition classify_smart_checkpoint ::
  "(string \<Rightarrow> tagged_token list \<Rightarrow> detection) option \<Rightarrow>
   string \<Rightarrow> tagged_token list \<Rightarrow> string option \<Rightarrow> real \<Rightarrow> detection" where
  "classify_smart_checkpoint onnx_session text tagged_tokens language_hint language_confidence =
     (case onnx_session of
        Some classify_with_onnx \<Rightarrow> classify_with_onnx text tagged_tokens
      | None \<Rightarrow>
         let text_lower = lower text;
             word_scripts = word_scripts_of tagged_tokens;
             has_latin = (''Latin'' \<in> set word_scripts);
             has_native = list_ex (\<lambda>s. s \<in> set native_scripts) word_scripts in
         if has_latin \<and> has_native then
           \<lparr>label = ''mixed'', confidence = 0.85,
            detection_method = ''smart_checkpoint_fallback'',
            details_romanized_language = None, skip_step5 = None\<rparr>
         else if has_latin \<and> hint_in language_hint native_langs then
           (let (romanized_lang, romanized_conf) = cm_detect_romanized_language text_lower in
            \<lparr>label = ''romanized_indic'', confidence = max romanized_conf 0.70,
             detection_method = ''smart_checkpoint_fallback'',
             details_romanized_language = Some romanized_lang, skip_step5 = None\<rparr>)
         else if has_latin \<and> language_hint = Some ''en'' then
           (if count_english_markers text_lower \<ge> 2 then
              \<lparr>label = ''pure_english'', confidence = 0.75,
               detection_method = ''smart_checkpoint_fallback'',
               details_romanized_language = None, skip_step5 = None\<rparr>
            else
              (let (romanized_lang, romanized_conf) = cm_detect_romanized_language text_lower in
               if romanized_conf > 0.3 then
                 \<lparr>label = ''romanized_indic'', confidence = romanized_conf,
                  detection_method = ''smart_checkpoint_fallback'',
                  details_romanized_language = Some romanized_lang, skip_step5 = None\<rparr>
               else ambiguous_fallback))
         else ambiguous_fallback)"

text \<open>
  \<open>CodeMixDetector.detect\<close>: the Fast Lane, then the Smart Checkpoint on \<open>ambiguous\<close>,
  whose answer is kept when its confidence exceeds 0.6; the skip flag is added last.
\<close>

definition detect ::
  "(string \<Rightarrow> tagged_token list \<Rightarrow> detection) option \<Rightarrow> bool \<Rightarrow>
   string \<Rightarrow> tagged_token list \<Rightarrow> string option \<Rightarrow> real \<Rightarrow> detection" where
  "detect onnx_session use_smart_checkpoint text tagged_tokens language_hint language_confidence =
     (let result = detect_heuristic text tagged_tokens language_hint language_confidence in
      if label result \<in> set [''pure_native'', ''pure_english''] then
        result\<lparr>skip_step5 := Some (should_skip_step5 result)\<rparr>
      else
        let result' =
          (if label result = ''ambiguous'' \<and> use_smart_checkpoint then
             (let ml_result = classify_smart_checkpoint onnx_session text tagged_tokens
                                language_hint language_confidence in
              if confidence ml_result > 0.6 then ml_result else result)
           else result)
        in result'\<lparr>skip_step5 := Some (should_skip_step5 result')\<rparr>)"


section \<open>Step 5: the transliteration stage (transliteration.py, transliteration\_client.py)\<close>

text \<open>
  The remote IndicXlit service is outside the program. \<open>remote text target\<close> stands for
  what \<open>TransliterationClient._transliterate_cached\<close> obtains for a request (from its own
  cache or over HTTP): the transliterated text or one of the failures the client handles.
\<close>

datatype response = Transliterated string | BadStatus | TimedOut | ConnectionLost

datatype error = RuntimeError | Timeout

text \<open>
  The client's state: its health flag, the languages the service advertised when the stage
  was constructed, and a log of the calls of \<open>transliterate\<close> (text and target language),
  kept by the model to state which requests reach the client.
\<close>

record client_state =
  is_healthy :: bool
  supported_languages :: "string list"
  transliterate_calls :: "(string \<times> string) list"

text \<open>\<open>TransliterationClient.transliterate\<close>.\<close>

definition transliterate ::
  "(string \<Rightarrow> string \<Rightarrow> response) \<Rightarrow> client_state \<Rightarrow> string \<Rightarrow> string \<Rightarrow>
   (error + string) \<times> client_state" where
  "transliterate remote c text target_language =
     (let c1 = c\<lparr>transliterate_calls := transliterate_calls c @ [(text, target_language)]\<rparr> in
      if \<not> is_healthy c then (Inl RuntimeError, c1)
      else case remote text target_language of
             Transliterated r \<Rightarrow> (Inr r, c1)
           | BadStatus \<Rightarrow> (Inl RuntimeError, c1)
           | TimedOut \<Rightarrow> (Inl Timeout, c1)
           | ConnectionLost \<Rightarrow> (Inl RuntimeError, c1\<lparr>is_healthy := False\<rparr>))"

definition LANGUAGE_NAME_TO_ISO :: "(string \<times> string) list" where
  "LANGUAGE_NAME_TO_ISO =
    [(''hindi'', ''hi''), (''bengali'', ''bn''), (''tamil'', ''ta''), (''telugu'', ''te''),
     (''marathi'', ''mr''), (''gujarati'', ''gu''), (''kannada'', ''kn''), (''malayalam'', ''ml''),
     (''punjabi'', ''pa''), (''assamese'', ''as''), (''odia'', ''or''), (''urdu'', ''ur''),
     (''sindhi'', ''sd''), (''kashmiri'', ''ks''), (''nepali'', ''ne''), (''sinhala'', ''si''),
     (''sanskrit'', ''sa''), (''konkani'', ''gom''), (''maithili'', ''mai''), (''bodo'', ''brx''),
     (''manipuri'', ''mni'')]"

definition lang_normalization :: "(string \<times> string) list" where
  "lang_normalization =
    [(''en'', ''en''), (''eng'', ''en''),
     (''hi'', ''hi''), (''bn'', ''bn''), (''ta'', ''ta''), (''te'', ''te''), (''gu'', ''gu''),
     (''kn'', ''kn''), (''ml'', ''ml''), (''pa'', ''pa''), (''mr'', ''mr''), (''as'', ''as''),
     (''or'', ''or''), (''ur'', ''ur''), (''sd'', ''sd''), (''ks'', ''ks''), (''ne'', ''ne''),
     (''si'', ''si''), (''sa'', ''sa''), (''gom'', ''gom''), (''mai'', ''mai''), (''brx'', ''brx''),
     (''mni'', ''mni''),
     (''hin_Deva'', ''hi''), (''ben_Beng'', ''bn''), (''tam_Taml'', ''ta''), (''tel_Telu'', ''te''),
     (''guj_Gujr'', ''gu''), (''kan_Knda'', ''kn''), (''mal_Mlym'', ''ml''), (''pan_Guru'', ''pa''),
     (''mar_Deva'', ''mr''), (''asm_Beng'', ''as''), (''ori_Orya'', ''or''), (''urd_Arab'', ''ur''),
     (''nep_Deva'', ''ne''), (''sin_Sinh'', ''si''), (''san_Deva'', ''sa''),
     (''hi_Latn'', ''hi''), (''bn_Latn'', ''bn''), (''ta_Latn'', ''ta''), (''te_Latn'', ''te''),
     (''gu_Latn'', ''gu''), (''kn_Latn'', ''kn''), (''ml_Latn'', ''ml''), (''pa_Latn'', ''pa''),
     (''mr_Latn'', ''mr'')]"

text \<open>\<open>d.get(k, default)\<close> on a dictionary written as an association list.\<close>

definition dict_get :: "('k \<times> 'v) list \<Rightarrow> 'k \<Rightarrow> 'v \<Rightarrow> 'v" where
  "dict_get d k dflt = (case map_of d k of None \<Rightarrow> dflt | Some v \<Rightarrow> v)"

text \<open>
  The language flags are a dictionary from flag names to booleans, read with the default
  \<open>False\<close>.
\<close>

definition flag :: "(string \<times> bool) list \<Rightarrow> string \<Rightarrow> bool" where
  "flag language_flags k = dict_get language_flags k False"

text \<open>
  \<open>TransliterationResult\<close>, without the latency and the cache-hit guess that the source
  derives from the clock.
\<close>

record transliteration_result =
  normalized_query :: string
  language_flags :: "(string \<times> bool) list"
  romanized_detected :: bool
  service_used :: string

text \<open>
  The target language after the two normalization steps of \<open>process\<close>: the name from
  Step 4, if given and non-empty, is mapped to its ISO code, and the code is normalized.
\<close>

definition resolve_target :: "string \<Rightarrow> string option \<Rightarrow> string" where
  "resolve_target target_lang romanized_language =
     (let target_lang1 =
            (case romanized_language of
               None \<Rightarrow> target_lang
             | Some r \<Rightarrow> if r = [] then target_lang
                         else dict_get LANGUAGE_NAME_TO_ISO (lower r) target_lang)
      in dict_get lang_normalization target_lang1 target_lang1)"

definition passthrough :: "string \<Rightarrow> (string \<times> bool) list \<Rightarrow> transliteration_result" where
  "passthrough query flags =
     \<lparr>normalized_query = query, language_flags = flags, romanized_detected = False,
      service_used = ''passthrough''\<rparr>"

text \<open>
  \<open>Step5TransliterationPipeline.process\<close>. Every failure of the client is raised again as
  a \<open>RuntimeError\<close>.
\<close>

definition process ::
  "(string \<Rightarrow> string \<Rightarrow> response) \<Rightarrow> client_state \<Rightarrow> string \<Rightarrow> (string \<times> bool) list \<Rightarrow>
   string \<Rightarrow> string option \<Rightarrow> (error + transliteration_result) \<times> client_state" where
  "process remote c query flags target_lang romanized_language =
     (let target = resolve_target target_lang romanized_language;
          romanized = flag flags ''romanized'';
          native_script = flag flags ''native'' in
      if native_script \<and> \<not> romanized then (Inr (passthrough query flags), c)
      else if \<not> romanized \<and> \<not> native_script then (Inr (passthrough query flags), c)
      else if target = ''en'' then (Inr (passthrough query flags), c)
      else if target \<notin> set (supported_languages c) then (Inr (passthrough query flags), c)
      else case transliterate remote c query target of
             (Inr normalized, c') \<Rightarrow>
               (Inr \<lparr>normalized_query = normalized, language_flags = flags,
                     romanized_detected = True, service_used = ''ai''\<rparr>, c')
           | (Inl e, c') \<Rightarrow> (Inl RuntimeError, c'))"

section \<open>The orchestrator's transliteration routing (pipeline.py)\<close>

text \<open>
  The orchestrator's state, as far as Step 5 is concerned: the client and the cache of
  \<open>_cached_translate\<close>, keyed by its three arguments. The cache is written as a map; the
  eviction of the least recently used of more than 10,000 entries is not modelled (it only
  turns a hit into a miss).
\<close>

record pipeline_state =
  client :: client_state
  translate_cache :: "(string \<times> string \<times> real) \<Rightarrow> string option"

definition lang_map :: "(string \<times> string) list" where
  "lang_map =
    [(''hi'', ''hin_Deva''), (''hin_Deva'', ''hin_Deva''), (''hi_Latn'', ''hin_Deva''),
     (''bn'', ''ben_Beng''), (''ben_Beng'', ''ben_Beng''), (''bn_Latn'', ''ben_Beng''),
     (''te'', ''tel_Telu''), (''tel_Telu'', ''tel_Telu''),
     (''ta'', ''tam_Taml''), (''tam_Taml'', ''tam_Taml''),
     (''mr'', ''mar_Deva''), (''mar_Deva'', ''mar_Deva''),
     (''gu'', ''guj_Gujr''), (''guj_Gujr'', ''guj_Gujr''),
     (''kn'', ''kan_Knda''), (''kan_Knda'', ''kan_Knda''),
     (''ml'', ''mal_Mlym''), (''mal_Mlym'', ''mal_Mlym''),
     (''pa'', ''pan_Guru''), (''pan_Guru'', ''pan_Guru''),
     (''en'', ''hin_Deva'')]"

text \<open>The body of \<open>_cached_translate\<close>, run on a cache miss.\<close>

definition translate_uncached ::
  "(string \<Rightarrow> string \<Rightarrow> response) \<Rightarrow> client_state \<Rightarrow> string \<Rightarrow> string \<Rightarrow>
   (error + string) \<times> client_state" where
  "translate_uncached remote c text source_lang =
     (let target_lang = dict_get lang_map source_lang ''hin_Deva'';
          flags = [(''romanized'', contains source_lang ''_Latn'' \<or>
                      source_lang \<in> set [''hi'', ''bn'', ''te'', ''ta'', ''mr'', ''gu'', ''kn'',
                                          ''ml'', ''pa'']),
                   (''native'', False),
                   (''english'', source_lang = ''en''),
                   (''mixed'', False)]
      in case process remote c text flags target_lang None of
           (Inr result, c') \<Rightarrow> (Inr (normalized_query result), c')
         | (Inl e, c') \<Rightarrow> (Inl e, c'))"

text \<open>\<open>_cached_translate\<close>: a hit returns the stored text; a result, not an exception, is stored.\<close>

definition cached_translate ::
  "(string \<Rightarrow> string \<Rightarrow> response) \<Rightarrow> pipeline_state \<Rightarrow> string \<Rightarrow> string \<Rightarrow> real \<Rightarrow>
   (error + string) \<times> pipeline_state" where
  "cached_translate remote st text source_lang lang_confidence =
     (case translate_cache st (text, source_lang, lang_confidence) of
        Some r \<Rightarrow> (Inr r, st)
      | None \<Rightarrow>
         (case translate_uncached remote (client st) text source_lang of
            (Inr r, c') \<Rightarrow>
              (Inr r, st\<lparr>client := c',
                         translate_cache :=
                           (translate_cache st)((text, source_lang, lang_confidence) \<mapsto> r)\<rparr>)
          | (Inl e, c') \<Rightarrow> (Inl e, st\<lparr>client := c'\<rparr>)))"

definition should_skip_translation :: "string \<Rightarrow> bool" where
  "should_skip_translation lang = (lang = ''en'')"

text \<open>
  Step 5 of \<open>OptimizedSemanticPipeline.process_async\<close>: from the corrected text, the
  language of Step 3 and the result of Step 4 to \<open>english_text\<close>, or to the exception that
  aborts the request.
\<close>

definition step5_translation ::
  "(string \<Rightarrow> string \<Rightarrow> response) \<Rightarrow> pipeline_state \<Rightarrow> string \<Rightarrow> string \<Rightarrow> real \<Rightarrow>
   detection \<Rightarrow> (error + string) \<times> pipeline_state" where
  "step5_translation remote st corrected_text detected_lang lang_confidence code_mix_result =
     (let script_label = label code_mix_result;
          code_mix_confidence = confidence code_mix_result in
      if script_label = ''pure_english'' \<and> code_mix_confidence > 0.70 then
        (Inr corrected_text, st)
      else if script_label = ''pure_native'' \<and> code_mix_confidence > 0.85 then
        cached_translate remote st corrected_text detected_lang lang_confidence
      else if script_label \<in> set [''romanized_indic'', ''mixed''] then
        (let romanized_lang =
               (case details_romanized_language code_mix_result of None \<Rightarrow> ''hindi'' | Some l \<Rightarrow> l);
             flags = [(''romanized'', script_label = ''romanized_indic''),
                      (''native'', False),
                      (''english'', False),
                      (''mixed'', script_label = ''mixed'')]
         in case process remote (client st) corrected_text flags ''en'' (Some romanized_lang) of
              (Inr result, c') \<Rightarrow> (Inr (normalized_query result), st\<lparr>client := c'\<rparr>)
            | (Inl e, c') \<Rightarrow> (Inl e, st\<lparr>client := c'\<rparr>))
      else if should_skip_translation detected_lang then (Inr corrected_text, st)
      else cached_translate remote st corrected_text detected_lang lang_confidence)"

text \<open>
  Steps 4 and 5 of a request, from the outputs of Step 3. The orchestrator constructs the
  detector with \<open>use_onnx=False\<close> and calls \<open>detect\<close> with the Smart Checkpoint enabled.
\<close>

definition steps_4_5 ::
  "(string \<Rightarrow> string \<Rightarrow> response) \<Rightarrow> pipeline_state \<Rightarrow> string \<Rightarrow> tagged_token list \<Rightarrow>
   string \<Rightarrow> real \<Rightarrow> detection \<times> (error + string) \<times> pipeline_state" where
  "steps_4_5 remote st corrected_text tagged_tokens detected_lang lang_confidence =
     (let code_mix_result = detect None True corrected_text tagged_tokens (Some detected_lang)
                              lang_confidence
      in (code_mix_result,
          step5_translation remote st corrected_text detected_lang lang_confidence
            code_mix_result))"

section \<open>Step 1: the input adapter's product cache (input\_handler.py)\<close>

text \<open>
  \<open>_product_cache\<close> is a Python dictionary; its iteration order is the order of insertion,
  so it is an association list with distinct keys, oldest entry first. Assigning to a key
  that is present keeps its place.
\<close>

definition cache_max_size :: nat where
  "cache_max_size = 1000"

fun dict_set :: "('k \<times> 'v) list \<Rightarrow> 'k \<Rightarrow> 'v \<Rightarrow> ('k \<times> 'v) list" where
  "dict_set [] k v = [(k, v)]"
| "dict_set ((k', v') # kvs) k v =
     (if k' = k then (k, v) # kvs else (k', v') # dict_set kvs k v)"

text \<open>\<open>del d[k]\<close> for a key that is present.\<close>

definition dict_del :: "('k \<times> 'v) list \<Rightarrow> 'k \<Rightarrow> ('k \<times> 'v) list" where
  "dict_del d k = filter (\<lambda>kv. fst kv \<noteq> k) d"

text \<open>
  \<open>InputHandler._cache_product\<close>: in a full cache the first key of the iteration order is
  deleted, then the key is set. (A full cache is not empty, so \<open>next(iter(...))\<close> finds a
  key.)
\<close>

definition cache_product :: "('k \<times> 'v) list \<Rightarrow> 'k \<Rightarrow> 'v \<Rightarrow> ('k \<times> 'v) list" where
  "cache_product product_cache cache_key product_data =
     (let product_cache1 =
            (if length product_cache \<ge> cache_max_size
             then (let oldest_key = fst (hd product_cache)
                   in dict_del product_cache oldest_key)
             else product_cache)
      in dict_set product_cache1 cache_key product_data)"

definition clear_cache :: "('k \<times> 'v) list \<Rightarrow> ('k \<times> 'v) list" where
  "clear_cache product_cache = []"

text \<open>The operations that change the cache, and a run of them from a given cache.\<close>

datatype ('k, 'v) cache_op = CacheProduct 'k 'v | ClearCache

fun apply_cache_op :: "('k \<times> 'v) list \<Rightarrow> ('k, 'v) cache_op \<Rightarrow> ('k \<times> 'v) list" where
  "apply_cache_op c (CacheProduct k v) = cache_product c k v"
| "apply_cache_op c ClearCache = clear_cache c"

definition run_cache_ops :: "('k \<times> 'v) list \<Rightarrow> ('k, 'v) cache_op list \<Rightarrow> ('k \<times> 'v) list" where
  "run_cache_ops c ops = foldl apply_cache_op c ops"


section \<open>Step 2: the spell corrector (spell\_corrector.py)\<close>

definition REWRITE_RULES :: "(string \<times> string) list" where
  "REWRITE_RULES =
    [(''iphon'', ''iphone''), (''iphne'', ''iphone''), (''iphn'', ''iphone''),
     (''sumsung'', ''samsung''), (''samsng'', ''samsung''), (''samsug'', ''samsung''),
     (''onplus'', ''oneplus''), (''onepls'', ''oneplus''),
     (''realme'', ''realme''), (''reelme'', ''realme''),
     (''xiaomi'', ''xiaomi''), (''xiomi'', ''xiaomi''),
     (''redmi'', ''redmi''), (''readmi'', ''redmi''),
     (''headphon'', ''headphone''), (''headfone'', ''headphone''), (''hedphone'', ''headphone''),
     (''earphon'', ''earphone''), (''earfone'', ''earphone''),
     (''bluetooth'', ''bluetooth''), (''blutooth'', ''bluetooth''), (''bluetoth'', ''bluetooth''),
     (''wireles'', ''wireless''), (''wirelss'', ''wireless''),
     (''charger'', ''charger''), (''chargr'', ''charger''),
     (''takar'', ''taka''), (''takaa'', ''taka''),
     (''rupee'', ''rupees''), (''rupaye'', ''rupees''), (''rupya'', ''rupees''),
     (''rupe'', ''rupees''),
     (''undr'', ''under''), (''belo'', ''below''), (''arond'', ''around''),
     (''prise'', ''price''), (''pric'', ''price'')]"

text \<open>
  \<open>UNIT_PATTERNS\<close>. The source has two more keys, the Bengali word for taka and the rupee
  sign, both mapped to \<open>rupees\<close>; their characters lie beyond code point 255, so no text of
  the model contains them.
\<close>

definition UNIT_PATTERNS :: "(string \<times> string) list" where
  "UNIT_PATTERNS =
    [(''taka'', ''rupees''), (''rupaye'', ''rupees''), (''rupya'', ''rupees''),
     (''rs'', ''rupees''), (''inr'', ''rupees''),
     (''pcs'', ''pieces''), (''pc'', ''pieces''),
     (''kg'', ''kilogram''), (''gm'', ''gram''),
     (''ltr'', ''liter''), (''ml'', ''milliliter'')]"

text \<open>
  \<open>PRESERVE_PATTERNS\<close>, each matched against the whole token with \<open>IGNORECASE\<close>: a run
  of digits, alone or followed by one of the listed suffixes or by one letter, and a letter
  followed by a run of digits. The suffixes do not start with a digit, so the run of digits
  is the longest one.
\<close>

definition digits_then :: "string \<Rightarrow> (string \<Rightarrow> bool) \<Rightarrow> bool" where
  "digits_then t suffix =
     (let ds = takeWhile re_digit t; rest = dropWhile re_digit t in ds \<noteq> [] \<and> suffix rest)"

definition re_az :: "char \<Rightarrow> bool" where
  "re_az c = ((97 \<le> ord c \<and> ord c \<le> 122) \<or> (65 \<le> ord c \<and> ord c \<le> 90))"

definition PRESERVE_PATTERNS :: "(string \<Rightarrow> bool) list" where
  "PRESERVE_PATTERNS =
    [\<lambda>t. digits_then t (\<lambda>r. r = []),
     \<lambda>t. digits_then t (\<lambda>r. lower r \<in> set [''k'', ''m'', ''b'', ''t'']),
     \<lambda>t. digits_then t (\<lambda>r. lower r \<in> set [''gb'', ''tb'', ''mb'']),
     \<lambda>t. digits_then t (\<lambda>r. lower r \<in> set [''mah'', ''wh'']),
     \<lambda>t. digits_then t (\<lambda>r. lower r \<in> set [''mp'', ''mpx'']),
     \<lambda>t. (case t of [] \<Rightarrow> False | c # ds \<Rightarrow> re_az c \<and> ds \<noteq> [] \<and> list_all re_digit ds),
     \<lambda>t. digits_then t (\<lambda>r. case r of [c] \<Rightarrow> re_az c | _ \<Rightarrow> False)]"

definition should_preserve :: "string \<Rightarrow> bool" where
  "should_preserve token =
     (if length token < 3 then True else list_ex (\<lambda>pattern. pattern token) PRESERVE_PATTERNS)"

text \<open>
  SymSpell is an external library. Its dictionary is the one \<open>_load_ecommerce_terms\<close>
  fills when no custom dictionary is given (the default, and what the pipeline does): terms
  with their frequencies.
\<close>

definition ecommerce_terms :: "(string \<times> nat) list" where
  "ecommerce_terms =
    [(''samsung'', 100000), (''apple'', 100000), (''iphone'', 100000),
     (''oneplus'', 80000), (''xiaomi'', 80000), (''realme'', 70000),
     (''redmi'', 70000), (''vivo'', 60000), (''oppo'', 60000),
     (''nokia'', 50000), (''motorola'', 40000), (''lg'', 40000),
     (''sony'', 50000), (''mi'', 60000), (''poco'', 40000),
     (''headphone'', 50000), (''headphones'', 50000), (''earphone'', 40000),
     (''bluetooth'', 60000), (''wireless'', 50000), (''charger'', 40000),
     (''cable'', 30000), (''adapter'', 25000), (''powerbank'', 30000),
     (''speaker'', 35000), (''watch'', 40000), (''smartwatch'', 35000),
     (''phone'', 80000), (''smartphone'', 70000), (''mobile'', 60000),
     (''laptop'', 50000), (''tablet'', 30000), (''computer'', 40000),
     (''fast'', 20000), (''quick'', 15000), (''charging'', 25000),
     (''battery'', 30000), (''camera'', 35000), (''storage'', 25000),
     (''display'', 20000), (''screen'', 25000), (''processor'', 20000),
     (''memory'', 18000), (''ram'', 25000), (''rom'', 20000),
     (''under'', 40000), (''below'', 30000), (''around'', 25000),
     (''price'', 50000), (''cost'', 30000), (''cheap'', 25000),
     (''budget'', 30000), (''affordable'', 20000), (''deal'', 25000),
     (''rupees'', 60000), (''taka'', 40000), (''lakh'', 30000)]"

text \<open>
  The model of \<open>SymSpell.lookup\<close> with \<open>Verbosity.CLOSEST\<close>, from the library's
  documented behaviour: a term of the dictionary is its own suggestion at distance 0;
  otherwise the suggestions are the dictionary terms at the smallest edit distance from the
  phrase that does not exceed \<open>max_edit_distance\<close>, ordered by decreasing frequency. The
  distance is the optimal-string-alignment distance (insertion, deletion, substitution, and
  transposition of two adjacent characters). \<open>edits_within k a b\<close> says that this distance
  is at most \<open>k\<close>.
\<close>

fun edits_within :: "nat \<Rightarrow> string \<Rightarrow> string \<Rightarrow> bool" where
  "edits_within k [] b = (length b \<le> k)"
| "edits_within k (x # a) [] = (Suc (length a) \<le> k)"
| "edits_within k (x # a) (y # b) =
     (if x = y then edits_within k a b
      else case k of
             0 \<Rightarrow> False
           | Suc k' \<Rightarrow>
               edits_within k' a (y # b) \<or> edits_within k' (x # a) b \<or> edits_within k' a b
               \<or> (case (a, b) of
                     (x' # a', y' # b') \<Rightarrow> x = y' \<and> x' = y \<and> edits_within k' a' b'
                   | _ \<Rightarrow> False))"

text \<open>
  The distance itself, if it is at most \<open>k + n\<close>: the first bound from \<open>k\<close> upwards
  that suffices.
\<close>

fun distance_from :: "nat \<Rightarrow> nat \<Rightarrow> string \<Rightarrow> string \<Rightarrow> nat option" where
  "distance_from k 0 a b = (if edits_within k a b then Some k else None)"
| "distance_from k (Suc n) a b =
     (if edits_within k a b then Some k else distance_from (Suc k) n a b)"

definition edit_distance :: "nat \<Rightarrow> string \<Rightarrow> string \<Rightarrow> nat option" where
  "edit_distance max_edit_distance a b = distance_from 0 max_edit_distance a b"

type_synonym suggest_item = "string \<times> nat \<times> nat"

definition sugg_term :: "suggest_item \<Rightarrow> string" where
  "sugg_term s = fst s"

definition sugg_distance :: "suggest_item \<Rightarrow> nat" where
  "sugg_distance s = fst (snd s)"

definition sugg_count :: "suggest_item \<Rightarrow> nat" where
  "sugg_count s = snd (snd s)"

definition sugg_less :: "suggest_item \<Rightarrow> suggest_item \<Rightarrow> bool" where
  "sugg_less s1 s2 =
     (sugg_distance s1 < sugg_distance s2
      \<or> (sugg_distance s1 = sugg_distance s2 \<and> sugg_count s1 > sugg_count s2))"

fun insert_suggestion :: "suggest_item \<Rightarrow> suggest_item list \<Rightarrow> suggest_item list" where
  "insert_suggestion s [] = [s]"
| "insert_suggestion s (x # xs) =
     (if sugg_less x s then x # insert_suggestion s xs else s # x # xs)"

definition sort_suggestions :: "suggest_item list \<Rightarrow> suggest_item list" where
  "sort_suggestions xs = foldr insert_suggestion xs []"

definition candidates :: "nat \<Rightarrow> string \<Rightarrow> suggest_item list" where
  "candidates max_edit_distance phrase =
     concat (map (\<lambda>(term, count).
                    case edit_distance max_edit_distance phrase term of
                      None \<Rightarrow> []
                    | Some d \<Rightarrow> [(term, d, count)])
                 ecommerce_terms)"

definition symspell_lookup :: "nat \<Rightarrow> string \<Rightarrow> suggest_item list" where
  "symspell_lookup max_edit_distance phrase =
     (case map_of ecommerce_terms phrase of
        Some count \<Rightarrow> [(phrase, 0, count)]
      | None \<Rightarrow>
         (case sort_suggestions (candidates max_edit_distance phrase) of
            [] \<Rightarrow> []
          | s # ss \<Rightarrow> s # takeWhile (\<lambda>x. sugg_distance x = sugg_distance s) ss))"

definition max_edit_distance :: nat where
  "max_edit_distance = Suc (Suc 0)"

text \<open>
  The corrector proper. \<open>lookup\<close> stands for the \<open>SymSpell\<close> object's
  \<open>lookup(token, Verbosity.CLOSEST, max_edit_distance)\<close>; with the defaults it is
  \<open>symspell_lookup max_edit_distance\<close>.
\<close>

definition rewrite_token :: "string \<Rightarrow> string" where
  "rewrite_token token = dict_get REWRITE_RULES token token"

definition apply_rewrite_rules :: "string \<Rightarrow> string" where
  "apply_rewrite_rules text = join '' '' (map rewrite_token (split (lower text)))"

definition symspell_correct :: "(string \<Rightarrow> suggest_item list) \<Rightarrow> string \<Rightarrow> string" where
  "symspell_correct lookup token =
     (case lookup token of
        [] \<Rightarrow> token
      | s # ss \<Rightarrow> if sugg_distance s \<le> 2 then sugg_term s else token)"

definition correct_token :: "(string \<Rightarrow> suggest_item list) \<Rightarrow> string \<Rightarrow> string" where
  "correct_token lookup token =
     (if should_preserve token then token else symspell_correct lookup token)"

definition unit_token :: "string \<Rightarrow> string" where
  "unit_token token = dict_get UNIT_PATTERNS token token"

definition normalize_units :: "string \<Rightarrow> string" where
  "normalize_units text = join '' '' (map unit_token (split (lower text)))"

definition correct_cached :: "(string \<Rightarrow> suggest_item list) \<Rightarrow> string \<Rightarrow> bool \<Rightarrow> string" where
  "correct_cached lookup text apply_unit_normalization =
     (let text1 = apply_rewrite_rules text;
          tokens = split text1;
          corrected_tokens = map (correct_token lookup) tokens;
          text2 = join '' '' corrected_tokens
      in if apply_unit_normalization then normalize_units text2 else text2)"

text \<open>
  \<open>SpellCorrector.correct\<close>. The cache in front of \<open>_correct_cached\<close> stores results of
  a function of its arguments alone and is left out.
\<close>

definition correct :: "(string \<Rightarrow> suggest_item list) \<Rightarrow> string \<Rightarrow> bool \<Rightarrow> string" where
  "correct lookup text apply_unit_normalization =
     (if text = [] then [] else correct_cached lookup text apply_unit_normalization)"

text \<open>
  The corrector as the pipeline constructs and calls it: the default dictionary, the default
  edit distance, unit normalization on. \<open>default_token\<close> is what its three stages do to
  one token.
\<close>

definition default_correct :: "string \<Rightarrow> string" where
  "default_correct text = correct (symspell_lookup max_edit_distance) text True"

definition default_token :: "string \<Rightarrow> string" where
  "default_token t =
     unit_token (correct_token (symspell_lookup max_edit_distance) (rewrite_token t))"


subsection \<open>The corrector on texts with characters beyond code point 255\<close>

text \<open>
  \<open>str.lower()\<close> leaves a character that has no lower-case form as it is, and some of
  those characters are upper-case: for U+2102 (DOUBLE-STRUCK CAPITAL C) \<open>isupper()\<close> is
  true and \<open>lower()\<close> returns the character itself. No code point up to 255 is of that
  kind. The corrector is therefore modelled once more on a larger alphabet: the code points
  0 to 255, the characters of the source's own tables beyond them (the Bengali letters
  U+099F and U+0995, the Bengali vowel sign U+09BE and the rupee sign U+20B9), and U+2102.
  For each of the five added characters \<open>isspace()\<close> is false and \<open>lower()\<close> returns
  the character itself; none is a decimal digit and none is in the class \<open>[a-z]\<close>, with
  or without \<open>IGNORECASE\<close>; only U+2102 is upper-case.
\<close>

datatype uchar = Latin1 char | BengaliTta | BengaliKa | BengaliAa | RupeeSign | DoubleStruckC

definition isspace_u :: "uchar \<Rightarrow> bool" where
  "isspace_u c = (case c of Latin1 b \<Rightarrow> isspace b | _ \<Rightarrow> False)"

definition isupper_u :: "uchar \<Rightarrow> bool" where
  "isupper_u c = (case c of Latin1 b \<Rightarrow> isupper b | DoubleStruckC \<Rightarrow> True | _ \<Rightarrow> False)"

definition lower_char_u :: "uchar \<Rightarrow> uchar" where
  "lower_char_u c = (case c of Latin1 b \<Rightarrow> Latin1 (lower_char b) | _ \<Rightarrow> c)"

definition lower_u :: "uchar list \<Rightarrow> uchar list" where
  "lower_u s = map lower_char_u s"

definition split_u :: "uchar list \<Rightarrow> uchar list list" where
  "split_u s = split_at isspace_u [] s"

definition no_upper_u :: "uchar list \<Rightarrow> bool" where
  "no_upper_u s = list_all (\<lambda>c. \<not> isupper_u c) s"

definition is_token_u :: "uchar list \<Rightarrow> bool" where
  "is_token_u t = (t \<noteq> [] \<and> list_all (\<lambda>c. \<not> isspace_u c) t)"

text \<open>
  A string of the smaller alphabet as a text of the larger one, and back: \<open>latin1_text\<close>
  is defined on the texts whose code points are all at most 255.
\<close>

definition utext :: "string \<Rightarrow> uchar list" where
  "utext s = map Latin1 s"

fun latin1_text :: "uchar list \<Rightarrow> string option" where
  "latin1_text [] = Some []"
| "latin1_text (c # cs) =
     (case c of Latin1 b \<Rightarrow> map_option ((#) b) (latin1_text cs) | _ \<Rightarrow> None)"

text \<open>
  \<open>REWRITE_RULES\<close> has the same entries as before; \<open>UNIT_PATTERNS\<close> now has all
  thirteen entries of the source, in the source's order.
\<close>

definition REWRITE_RULES_u :: "(uchar list \<times> uchar list) list" where
  "REWRITE_RULES_u = map (\<lambda>(k, v). (utext k, utext v)) REWRITE_RULES"

definition UNIT_PATTERNS_u :: "(uchar list \<times> uchar list) list" where
  "UNIT_PATTERNS_u =
    [(utext ''taka'', utext ''rupees''),
     ([BengaliTta, BengaliAa, BengaliKa, BengaliAa], utext ''rupees''),
     (utext ''rupaye'', utext ''rupees''), (utext ''rupya'', utext ''rupees''),
     (utext ''rs'', utext ''rupees''), (utext ''inr'', utext ''rupees''),
     ([RupeeSign], utext ''rupees''),
     (utext ''pcs'', utext ''pieces''), (utext ''pc'', utext ''pieces''),
     (utext ''kg'', utext ''kilogram''), (utext ''gm'', utext ''gram''),
     (utext ''ltr'', utext ''liter''), (utext ''ml'', utext ''milliliter'')]"

text \<open>
  Every preserve pattern matches decimal digits and the letters a to z only, so a token
  with a character beyond code point 255 matches none of them.
\<close>

definition should_preserve_u :: "uchar list \<Rightarrow> bool" where
  "should_preserve_u token =
     (if length token < 3 then True
      else case latin1_text token of
             None \<Rightarrow> False
           | Some s \<Rightarrow> list_ex (\<lambda>pattern. pattern s) PRESERVE_PATTERNS)"

type_synonym suggest_item_u = "uchar list \<times> nat \<times> nat"

definition rewrite_token_u :: "uchar list \<Rightarrow> uchar list" where
  "rewrite_token_u token = dict_get REWRITE_RULES_u token token"

definition apply_rewrite_rules_u :: "uchar list \<Rightarrow> uchar list" where
  "apply_rewrite_rules_u text =
     join [Latin1 CHR '' ''] (map rewrite_token_u (split_u (lower_u text)))"

definition symspell_correct_u :: "(uchar list \<Rightarrow> suggest_item_u list) \<Rightarrow> uchar list \<Rightarrow> uchar list" where
  "symspell_correct_u lookup token =
     (case lookup token of
        [] \<Rightarrow> token
      | s # ss \<Rightarrow> if fst (snd s) \<le> 2 then fst s else token)"

definition correct_token_u :: "(uchar list \<Rightarrow> suggest_item_u list) \<Rightarrow> uchar list \<Rightarrow> uchar list" where
  "correct_token_u lookup token =
     (if should_preserve_u token then token else symspell_correct_u lookup token)"

definition unit_token_u :: "uchar list \<Rightarrow> uchar list" where
  "unit_token_u token = dict_get UNIT_PATTERNS_u token token"

definition normalize_units_u :: "uchar list \<Rightarrow> uchar list" where
  "normalize_units_u text =
     join [Latin1 CHR '' ''] (map unit_token_u (split_u (lower_u text)))"

definition correct_cached_u ::
  "(uchar list \<Rightarrow> suggest_item_u list) \<Rightarrow> uchar list \<Rightarrow> bool \<Rightarrow> uchar list" where
  "correct_cached_u lookup text apply_unit_normalization =
     (let text1 = apply_rewrite_rules_u text;
          tokens = split_u text1;
          corrected_tokens = map (correct_token_u lookup) tokens;
          text2 = join [Latin1 CHR '' ''] corrected_tokens
      in if apply_unit_normalization then normalize_units_u text2 else text2)"

definition correct_u ::
  "(uchar list \<Rightarrow> suggest_item_u list) \<Rightarrow> uchar list \<Rightarrow> bool \<Rightarrow> uchar list" where
  "correct_u lookup text apply_unit_normalization =
     (if text = [] then [] else correct_cached_u lookup text apply_unit_normalization)"

text \<open>
  A lookup that finds nothing, for the runs in which every token is shorter than three
  characters: such tokens are preserved and the dictionary is never consulted.
\<close>

definition no_suggestions :: "uchar list \<Rightarrow> suggest_item_u list" where
  "no_suggestions token = []"


section \<open>The smart romanized detector (smart\_romanized\_detector.py)\<close>

text \<open>The three scores that every analysis returns, for \<open>hi_Latn\<close>, \<open>bn_Latn\<close> and \<open>en\<close>.\<close>

record scores =
  score_hi :: real
  score_bn :: real
  score_en :: real

definition zero_scores :: scores where
  "zero_scores = \<lparr>score_hi = 0, score_bn = 0, score_en = 0\<rparr>"


definition hindi_bigrams :: "string list" where
  "hindi_bigrams = [''ka'', ''ki'', ''ke'', ''ko'', ''kh'', ''gh'', ''ch'', ''jh'', ''th'', ''dh'',
                    ''ph'', ''bh'', ''sh'', ''oo'', ''aa'', ''ee'', ''ai'', ''au'']"

definition hindi_trigrams :: "string list" where
  "hindi_trigrams = [''kha'', ''gha'', ''cha'', ''chh'', ''jha'', ''tha'', ''dha'', ''pha'',
                     ''bha'', ''sha'', ''kya'', ''khya'', ''gya'']"

definition bengali_bigrams :: "string list" where
  "bengali_bigrams = [''or'', ''er'', ''ar'', ''ir'', ''ur'', ''kh'', ''gh'', ''ch'', ''jh'',
                      ''th'', ''dh'', ''ph'', ''bh'']"

definition bengali_trigrams :: "string list" where
  "bengali_trigrams = [''ore'', ''are'', ''ere'', ''iye'', ''aye'', ''kha'', ''gha'', ''cha'',
                       ''jha'', ''tha'', ''dha'']"

definition hindi_char_freq :: "(char \<times> real) list" where
  "hindi_char_freq =
    [(CHR ''a'', 0.13), (CHR ''e'', 0.08), (CHR ''i'', 0.10), (CHR ''o'', 0.07),
     (CHR ''u'', 0.06), (CHR ''k'', 0.08), (CHR ''h'', 0.06), (CHR ''n'', 0.07),
     (CHR ''t'', 0.06), (CHR ''d'', 0.05), (CHR ''r'', 0.05), (CHR ''s'', 0.05),
     (CHR ''m'', 0.04), (CHR ''p'', 0.04), (CHR ''b'', 0.03)]"

definition bengali_char_freq :: "(char \<times> real) list" where
  "bengali_char_freq =
    [(CHR ''a'', 0.14), (CHR ''o'', 0.09), (CHR ''e'', 0.09), (CHR ''i'', 0.08),
     (CHR ''u'', 0.05), (CHR ''r'', 0.08), (CHR ''k'', 0.07), (CHR ''n'', 0.06),
     (CHR ''t'', 0.06), (CHR ''h'', 0.06), (CHR ''b'', 0.05), (CHR ''d'', 0.05),
     (CHR ''l'', 0.04), (CHR ''m'', 0.04), (CHR ''p'', 0.03)]"

definition english_char_freq :: "(char \<times> real) list" where
  "english_char_freq =
    [(CHR ''e'', 0.127), (CHR ''t'', 0.091), (CHR ''a'', 0.082), (CHR ''o'', 0.075),
     (CHR ''i'', 0.070), (CHR ''n'', 0.067), (CHR ''s'', 0.063), (CHR ''h'', 0.061),
     (CHR ''r'', 0.060), (CHR ''d'', 0.043)]"

definition core_hindi_words :: "string list" where
  "core_hindi_words =
    [''ka'', ''ke'', ''ki'', ''ko'', ''se'', ''me'', ''mein'', ''par'', ''tak'',
     ''hai'', ''hain'', ''chahiye'', ''kharidna'', ''khareedna'', ''dekhna'',
     ''milega'', ''lagta'', ''dena'', ''lena'',
     ''aur'', ''ya'', ''kya'', ''koi'', ''yah'', ''woh'', ''ek'', ''do'',
     ''mujhe'', ''mere'', ''mera'', ''tumhe'', ''tumhara'',
     ''rupay'', ''rupaye'', ''rupaiye'', ''taka'', ''paisa'',
     ''sasta'', ''mehenga'', ''accha'', ''badhiya'', ''best'',
     ''under'', ''upor'', ''upar'', ''niche'', ''ke'', ''andar'']"

definition core_bengali_words :: "string list" where
  "core_bengali_words =
    [''ar'', ''er'', ''te'', ''ke'', ''ba'', ''o'', ''ebong'',
     ''ache'', ''achhe'', ''dekhao'', ''dekhabo'', ''keno'', ''kena'',
     ''lagbe'', ''hobe'', ''debo'', ''nebo'',
     ''amake'', ''amar'', ''tomar'', ''take'', ''tar'', ''ei'', ''oi'',
     ''koto'', ''keno'', ''ki'', ''ekta'', ''duti'',
     ''taka'', ''dam'', ''damer'', ''bhalo'', ''sundor'',
     ''upor'', ''upore'', ''niche'', ''moddhe'', ''vitore'',
     ''under'']"

text \<open>\<open>_analyze_core_words\<close>: a quarter for every word of the core vocabulary, at most 1.\<close>

definition analyze_core_words :: "string list \<Rightarrow> scores" where
  "analyze_core_words words =
     (if words = [] then zero_scores
      else let hindi_matches = length (filter (\<lambda>w. w \<in> set core_hindi_words) words);
               bengali_matches = length (filter (\<lambda>w. w \<in> set core_bengali_words) words)
           in \<lparr>score_hi = (if hindi_matches > 0 then min 1 (real hindi_matches * 0.25) else 0),
               score_bn = (if bengali_matches > 0 then min 1 (real bengali_matches * 0.25) else 0),
               score_en = (if hindi_matches = 0 \<and> bengali_matches = 0 then 1 else 0.1)\<rparr>)"

text \<open>The slices \<open>text[i:i+n]\<close> for \<open>i\<close> below \<open>len(text) - (n - 1)\<close> that are alphabetic.\<close>

definition alpha_ngrams :: "nat \<Rightarrow> string \<Rightarrow> string list" where
  "alpha_ngrams n text =
     filter str_isalpha (map (\<lambda>i. take n (drop i text)) [0..<length text - (n - 1)])"

definition analyze_ngrams :: "string \<Rightarrow> scores" where
  "analyze_ngrams text =
     (let bigrams = alpha_ngrams 2 text;
          trigrams = alpha_ngrams 3 text in
      if bigrams = [] \<and> trigrams = [] then zero_scores
      else let hindi_bigram_matches = length (filter (\<lambda>bg. bg \<in> set hindi_bigrams) bigrams);
               bengali_bigram_matches = length (filter (\<lambda>bg. bg \<in> set bengali_bigrams) bigrams);
               hindi_trigram_matches = length (filter (\<lambda>tg. tg \<in> set hindi_trigrams) trigrams);
               bengali_trigram_matches =
                 length (filter (\<lambda>tg. tg \<in> set bengali_trigrams) trigrams);
               total_ngrams = length bigrams + length trigrams
           in if total_ngrams > 0 then
                (let hi = real (hindi_bigram_matches + hindi_trigram_matches) / real total_ngrams;
                     bn = real (bengali_bigram_matches + bengali_trigram_matches)
                            / real total_ngrams
                 in \<lparr>score_hi = hi, score_bn = bn, score_en = 1 - max hi bn\<rparr>)
              else zero_scores)"

text \<open>
  \<open>_analyze_char_frequency\<close>. A frequency table is a dictionary from characters to
  numbers; the text's table has one entry for each distinct letter.
\<close>

definition freq_get :: "(char \<times> real) list \<Rightarrow> char \<Rightarrow> real" where
  "freq_get freq k = dict_get freq k 0"

definition cosine_similarity :: "(char \<times> real) list \<Rightarrow> (char \<times> real) list \<Rightarrow> real" where
  "cosine_similarity freq1 freq2 =
     (let common_keys = filter (\<lambda>k. k \<in> set (map fst freq2)) (map fst freq1) in
      if common_keys = [] then 0
      else let dot_product = sum_list (map (\<lambda>k. freq_get freq1 k * freq_get freq2 k) common_keys);
               mag1 = sqrt (sum_list (map (\<lambda>kv. (snd kv)\<^sup>2) freq1));
               mag2 = sqrt (sum_list (map (\<lambda>kv. (snd kv)\<^sup>2) freq2))
           in if mag1 = 0 \<or> mag2 = 0 then 0 else dot_product / (mag1 * mag2))"

definition text_freq :: "string \<Rightarrow> (char \<times> real) list" where
  "text_freq chars =
     map (\<lambda>c. (c, real (count_list chars c) / real (length chars))) (remdups chars)"

definition analyze_char_frequency :: "string \<Rightarrow> scores" where
  "analyze_char_frequency text =
     (let chars = filter isalpha (lower text) in
      if chars = [] then zero_scores
      else let hi = cosine_similarity (text_freq chars) hindi_char_freq;
               bn = cosine_similarity (text_freq chars) bengali_char_freq;
               en = cosine_similarity (text_freq chars) english_char_freq;
               total = hi + bn + en
           in if total > 0
              then \<lparr>score_hi = hi / total, score_bn = bn / total, score_en = en / total\<rparr>
              else \<lparr>score_hi = hi, score_bn = bn, score_en = en\<rparr>)"

text \<open>
  The word patterns, searched in a word: Hindi \<open>^[kgc]h[aeiou]\<close>, \<open>[aeiou]{2}\<close> and
  \<open>^[ptk]h\<close>; Bengali \<open>[aeiou]r$\<close>, \<open>^[ptk]h[aeiou]\<close> and \<open>[oy]e$\<close>.
\<close>

definition vowel :: "char \<Rightarrow> bool" where
  "vowel c = (c \<in> set ''aeiou'')"

fun two_vowels :: "string \<Rightarrow> bool" where
  "two_vowels (c # d # cs) = ((vowel c \<and> vowel d) \<or> two_vowels (d # cs))"
| "two_vowels cs = False"

definition hindi_word_pattern :: "string \<Rightarrow> bool" where
  "hindi_word_pattern w =
     ((case w of c # h # v # _ \<Rightarrow> c \<in> set ''kgc'' \<and> h = CHR ''h'' \<and> vowel v | _ \<Rightarrow> False)
      \<or> two_vowels w
      \<or> (case w of c # h # _ \<Rightarrow> c \<in> set ''ptk'' \<and> h = CHR ''h'' | _ \<Rightarrow> False))"

definition bengali_word_pattern :: "string \<Rightarrow> bool" where
  "bengali_word_pattern w =
     ((case rev w of r # v # _ \<Rightarrow> r = CHR ''r'' \<and> vowel v | _ \<Rightarrow> False)
      \<or> (case w of c # h # v # _ \<Rightarrow> c \<in> set ''ptk'' \<and> h = CHR ''h'' \<and> vowel v | _ \<Rightarrow> False)
      \<or> (case rev w of e # c # _ \<Rightarrow> e = CHR ''e'' \<and> c \<in> set ''oy'' | _ \<Rightarrow> False))"

definition analyze_phonetic_patterns :: "string \<Rightarrow> scores" where
  "analyze_phonetic_patterns text =
     (let words = filter (\<lambda>w. str_isalpha w \<and> length w > 2) (split text) in
      if words = [] then zero_scores
      else let hindi_pattern_matches = length (filter hindi_word_pattern words);
               bengali_pattern_matches = length (filter bengali_word_pattern words);
               hi = real hindi_pattern_matches / real (length words);
               bn = real bengali_pattern_matches / real (length words)
           in \<lparr>score_hi = hi, score_bn = bn, score_en = 1 - max hi bn\<rparr>)"

text \<open>The weighted sum of the four analyses: 65, 15, 10 and 10 per cent.\<close>

definition combined_scores :: "string list \<Rightarrow> string \<Rightarrow> scores" where
  "combined_scores words text_lower =
     (let word_scores = analyze_core_words words;
          ngram_scores = analyze_ngrams text_lower;
          freq_scores = analyze_char_frequency text_lower;
          phonetic_scores = analyze_phonetic_patterns text_lower
      in \<lparr>score_hi = score_hi word_scores * 0.65 + score_hi ngram_scores * 0.15
                       + score_hi freq_scores * 0.10 + score_hi phonetic_scores * 0.10,
          score_bn = score_bn word_scores * 0.65 + score_bn ngram_scores * 0.15
                       + score_bn freq_scores * 0.10 + score_bn phonetic_scores * 0.10,
          score_en = score_en word_scores * 0.65 + score_en ngram_scores * 0.15
                       + score_en freq_scores * 0.10 + score_en phonetic_scores * 0.10\<rparr>)"

text \<open>
  The choice of the language: \<open>max\<close> over the dictionary keeps the first key of highest
  score in the order \<open>hi_Latn\<close>, \<open>bn_Latn\<close>, \<open>en\<close>; when that is \<open>en\<close> and the better
  Indic score is positive and at most 0.15 below, the Indic language is taken instead.
\<close>

definition choose_language :: "scores \<Rightarrow> string \<times> real" where
  "choose_language s =
     (let best_lang = (if score_hi s \<ge> score_bn s \<and> score_hi s \<ge> score_en s then ''hi_Latn''
                       else if score_bn s \<ge> score_en s then ''bn_Latn'' else ''en'');
          confidence = (if best_lang = ''hi_Latn'' then score_hi s
                        else if best_lang = ''bn_Latn'' then score_bn s else score_en s)
      in if best_lang = ''en'' then
           (let indic_score = max (score_hi s) (score_bn s) in
            if indic_score > 0 \<and> score_en s - indic_score \<le> 0.15 then
              (if score_hi s > score_bn s then (''hi_Latn'', score_hi s)
               else (''bn_Latn'', score_bn s))
            else (best_lang, confidence))
         else (best_lang, confidence))"

text \<open>\<open>SmartRomanizedDetector.detect_romanized_language\<close>.\<close>

definition detect_romanized_language :: "string \<Rightarrow> string option \<times> real" where
  "detect_romanized_language text =
     (if text = [] \<or> strip text = [] then (None, 0)
      else let text_lower = lower text;
               words = split text_lower in
        if list_all (\<lambda>word. str_isdigit word \<or> length word \<le> 2) words then (None, 0)
        else let (best_lang, confidence) = choose_language (combined_scores words text_lower) in
          if confidence \<ge> 0.30 \<and> best_lang \<noteq> ''en'' then (Some best_lang, confidence)
          else (None, 0))"


section \<open>Step 3: language identification and script tags (tokenizer.py)\<close>

text \<open>
  The fastText model is external: \<open>fasttext clean_text\<close> is what \<open>predict\<close> gives, a
  label (without its \<open>__label__\<close> prefix) with its probability, a result of another
  shape, or an exception.
\<close>

datatype ft_prediction = Prediction string real | NoPrediction | Failed

definition hindi_words :: "string list" where
  "hindi_words =
    [''mujhe'', ''chahiye'', ''dikhao'', ''dikhaiye'', ''dikhaye'', ''karo'', ''kariye'',
     ''ka'', ''ki'', ''ke'', ''ko'', ''hai'', ''ho'', ''hain'', ''tha'', ''thi'', ''the'',
     ''kya'', ''kaun'', ''kaise'', ''kahan'', ''dekho'', ''dekhiye'', ''lena'', ''lijiye'',
     ''dena'', ''dijiye'', ''hua'', ''hoon'', ''tumhara'', ''tumhe'', ''aapka'', ''aapko'',
     ''na'', ''nahi'', ''nahin'', ''haan'', ''toh'', ''wala'', ''wali'', ''mere'', ''mera'']"

definition bengali_words :: "string list" where
  "bengali_words =
    [''amake'', ''amar'', ''tomar'', ''dekhao'', ''dekhaye'', ''koro'', ''korte'', ''koriye'',
     ''hobe'', ''ache'', ''achhe'', ''niye'', ''dao'', ''diye'', ''kemon'', ''kothay'', ''kon'',
     ''tumi'', ''ami'', ''apni'', ''eta'', ''ota'', ''ki'', ''na'', ''haan'', ''chilo'',
     ''chhilo'']"

definition english_indicators :: "string list" where
  "english_indicators =
    [''wireless'', ''bluetooth'', ''headphone'', ''earphone'', ''laptop'', ''mobile'', ''phone'',
     ''under'', ''show'', ''find'', ''search'', ''buy'']"

text \<open>A model that raises on every text, for concrete runs that never consult it.\<close>

definition failing_model :: "string \<Rightarrow> ft_prediction" where
  "failing_model text = Failed"

text \<open>
  The native Indic blocks that \<open>_detect_script_uncached\<close> looks for: Devanagari
  U+0900..U+097F, Bengali U+0980..U+09FF, Gujarati U+0A80..U+0AFF, Odia U+0B00..U+0B7F,
  Tamil U+0B80..U+0BFF, Telugu U+0C00..U+0C7F, Kannada U+0C80..U+0CFF and Malayalam
  U+0D00..U+0D7F. No character of the model's range lies in them.
\<close>

definition native_indic_char :: "char \<Rightarrow> bool" where
  "native_indic_char c =
     ((2304 \<le> ord c \<and> ord c \<le> 2431) \<or> (2432 \<le> ord c \<and> ord c \<le> 2559)
      \<or> (2688 \<le> ord c \<and> ord c \<le> 2815) \<or> (2816 \<le> ord c \<and> ord c \<le> 2943)
      \<or> (2944 \<le> ord c \<and> ord c \<le> 3071) \<or> (3072 \<le> ord c \<and> ord c \<le> 3199)
      \<or> (3200 \<le> ord c \<and> ord c \<le> 3327) \<or> (3328 \<le> ord c \<and> ord c \<le> 3455))"

definition has_native_indic :: "string \<Rightarrow> bool" where
  "has_native_indic text = list_ex native_indic_char text"

text \<open>\<open>Tokenizer.detect_script_unicode_fast\<close>, for one character.\<close>

definition detect_script_unicode_fast :: "char \<Rightarrow> string" where
  "detect_script_unicode_fast char =
     (let code = ord char in
      if isspace char then ''Space''
      else if isdigit char then ''Number''
      else if code \<le> 127 \<or> (128 \<le> code \<and> code \<le> 255) then ''Latin''
      else if 2304 \<le> code \<and> code \<le> 2431 then ''Devanagari''
      else if 2432 \<le> code \<and> code \<le> 2559 then ''Bengali''
      else if 2944 \<le> code \<and> code \<le> 3071 then ''Tamil''
      else if 3072 \<le> code \<and> code \<le> 3199 then ''Telugu''
      else if 2688 \<le> code \<and> code \<le> 2815 then ''Gujarati''
      else if 3200 \<le> code \<and> code \<le> 3327 then ''Kannada''
      else if 3328 \<le> code \<and> code \<le> 3455 then ''Malayalam''
      else if 2560 \<le> code \<and> code \<le> 2687 then ''Punjabi''
      else if 2816 \<le> code \<and> code \<le> 2943 then ''Odia''
      else if 1536 \<le> code \<and> code \<le> 1791 then ''Arabic''
      else ''Other'')"

text \<open>
  The key with the highest count in a counting dictionary built from a list of keys:
  the keys in the order of their first occurrence, the first of highest count.
\<close>

definition keys_in_order :: "string list \<Rightarrow> string list" where
  "keys_in_order xs = rev (remdups (rev xs))"

fun first_max_count :: "string list \<Rightarrow> string \<Rightarrow> string list \<Rightarrow> string" where
  "first_max_count xs best [] = best"
| "first_max_count xs best (k # ks) =
     first_max_count xs (if count_list xs k > count_list xs best then k else best) ks"

definition dominant_key :: "string list \<Rightarrow> string" where
  "dominant_key xs =
     (case keys_in_order xs of [] \<Rightarrow> ''Unknown'' | k # ks \<Rightarrow> first_max_count xs k ks)"

definition script_to_lang :: "(string \<times> string) list" where
  "script_to_lang =
    [(''Latin'', ''en''), (''Devanagari'', ''hi''), (''Bengali'', ''bn''), (''Tamil'', ''ta''),
     (''Telugu'', ''te''), (''Gujarati'', ''gu''), (''Kannada'', ''kn''), (''Malayalam'', ''ml''),
     (''Punjabi'', ''pa''), (''Odia'', ''or''), (''Arabic'', ''ar'')]"

text \<open>\<open>Tokenizer._detect_language_unicode_fallback\<close>.\<close>

definition detect_language_unicode_fallback :: "string \<Rightarrow> string \<times> real" where
  "detect_language_unicode_fallback text =
     (if text = [] then (''unknown'', 0)
      else let scripts = filter (\<lambda>s. s \<notin> set [''Space'', ''Number'', ''Other''])
                                (map detect_script_unicode_fast text) in
        if scripts = [] then (''unknown'', 0)
        else let dominant_script = dominant_key scripts;
                 confidence = real (count_list scripts dominant_script) / real (length scripts)
             in (dict_get script_to_lang dominant_script ''unknown'', confidence))"

text \<open>
  \<open>Tokenizer._detect_script_uncached\<close>, the language identification of Step 3. The
  romanized marker words are tried first, then the English indicators, then the model on
  native script, then the smart romanized detector, then the model, then the Unicode
  fallback.
\<close>

definition detect_script_uncached ::
  "(string \<Rightarrow> ft_prediction) \<Rightarrow> string \<Rightarrow> string \<times> real" where
  "detect_script_uncached fasttext text =
     (if text = [] then (''unknown'', 0)
      else
        let text_lower = lower text;
            text_words = split text_lower;
            hindi_matches = length (filter (\<lambda>word. word \<in> set hindi_words) text_words);
            bengali_matches = length (filter (\<lambda>word. word \<in> set bengali_words) text_words)
        in
        if hindi_matches \<ge> 2 \<or> bengali_matches \<ge> 2 then
          (if hindi_matches \<ge> bengali_matches then ''hi'' else ''bn'', 0.65)
        else
          let has_english_word = list_ex (\<lambda>word. contains text_lower word) english_indicators;
              has_only_ascii = list_all (\<lambda>c. ord c < 128) (filter (\<lambda>c. \<not> isspace c) text);
              has_no_indic = (hindi_matches = 0 \<and> bengali_matches = 0)
          in
          if has_english_word \<and> has_only_ascii \<and> has_no_indic then (''en'', 0.95)
          else
            let clean_text = strip (map (\<lambda>c. if ord c = 10 then CHR '' '' else c) text);
                native_result =
                  (if has_native_indic clean_text then
                     (case fasttext clean_text of
                        Prediction lang_label conf \<Rightarrow> Some (lang_label, conf)
                      | _ \<Rightarrow> None)
                   else None)
            in
            case native_result of
              Some r \<Rightarrow> r
            | None \<Rightarrow>
               let has_latin = list_ex (\<lambda>c. 97 \<le> ord (lower_char c) \<and> ord (lower_char c) \<le> 122)
                                       clean_text;
                   romanized_result =
                     (if has_latin then
                        (case detect_romanized_language clean_text of
                           (None, rom_conf) \<Rightarrow> None
                         | (Some rom_lang0, rom_conf) \<Rightarrow>
                            let rom_lang = (if CHR ''_'' \<in> set rom_lang0
                                            then takeWhile (\<lambda>c. c \<noteq> CHR ''_'') rom_lang0
                                            else rom_lang0)
                            in if rom_lang \<noteq> [] \<and> rom_conf > 0.25
                                  \<and> rom_lang \<in> set [''hi'', ''bn'', ''mr'', ''pa'', ''gu'', ''ta'',
                                                      ''te'']
                               then Some (rom_lang, rom_conf) else None)
                      else None)
               in
               case romanized_result of
                 Some r \<Rightarrow> r
               | None \<Rightarrow>
                  if length clean_text < 2 then (''unknown'', 0)
                  else case fasttext clean_text of
                         Prediction lang_label conf \<Rightarrow> (lang_label, conf)
                       | NoPrediction \<Rightarrow> (''unknown'', 0)
                       | Failed \<Rightarrow> detect_language_unicode_fallback text)"

text \<open>
  \<open>Tokenizer.detect_token_script\<close>: the dominant script of a token, numbers, spaces and
  other characters aside.
\<close>

definition detect_token_script :: "string \<Rightarrow> string" where
  "detect_token_script tok =
     (if tok = [] then ''Unknown''
      else let script_list = map detect_script_unicode_fast tok;
               filtered = filter (\<lambda>k. k \<notin> set [''Number'', ''Space'', ''Other'']) script_list
           in if filtered \<noteq> [] then dominant_key filtered
              else if ''Number'' \<in> set script_list then ''Number''
              else ''Other'')"

text \<open>The script tag that \<open>tokenize_step3_strict\<close> gives a token: the fast paths on the
  first character, else the full detection.\<close>

definition tag_token :: "string \<Rightarrow> tagged_token" where
  "tag_token tok =
     (if tok \<noteq> [] \<and> ord (hd tok) < 128 then
        (if str_isdigit tok then \<lparr>token_text = tok, script_tag = Some ''Number''\<rparr>
         else \<lparr>token_text = tok, script_tag = Some ''Latin''\<rparr>)
      else if tok \<noteq> [] \<and> 2304 \<le> ord (hd tok) \<and> ord (hd tok) \<le> 2431 then
        \<lparr>token_text = tok, script_tag = Some ''Devanagari''\<rparr>
      else if tok \<noteq> [] \<and> 2432 \<le> ord (hd tok) \<and> ord (hd tok) \<le> 2559 then
        \<lparr>token_text = tok, script_tag = Some ''Bengali''\<rparr>
      else \<lparr>token_text = tok, script_tag = Some (detect_token_script tok)\<rparr>)"

text \<open>
  \<open>Tokenizer.tokenize_icu_style\<close> in the enforced mode: the pre-tokenizer of the Rust
  library is external (\<open>pre_tokenize\<close>); its pieces are stripped and the blank ones
  dropped.
\<close>

definition tokenize_icu_style :: "(string \<Rightarrow> string list) \<Rightarrow> string \<Rightarrow> string list" where
  "tokenize_icu_style pre_tokenize text =
     (if text = [] then []
      else map strip (filter (\<lambda>t. strip t \<noteq> [] \<and> \<not> list_all isspace t) (pre_tokenize text)))"

text \<open>
  The result of Step 3 that the later steps read: its keys \<open>tokens\<close>, \<open>language\<close>,
  \<open>language_confidence\<close> and \<open>tagged_tokens\<close>.
\<close>

record step3_result =
  step3_tokens :: "string list"
  step3_language :: string
  step3_confidence :: real
  step3_tagged :: "tagged_token list"

definition tokenize_step3_strict ::
  "(string \<Rightarrow> string list) \<Rightarrow> (string \<Rightarrow> ft_prediction) \<Rightarrow> string \<Rightarrow> step3_result" where
  "tokenize_step3_strict pre_tokenize fasttext text =
     (if text = [] then
        \<lparr>step3_tokens = [], step3_language = ''unknown'', step3_confidence = 0,
          step3_tagged = []\<rparr>
      else let toks = tokenize_icu_style pre_tokenize text;
               (lang, conf) = detect_script_uncached fasttext text
           in \<lparr>step3_tokens = toks, step3_language = lang, step3_confidence = conf,
               step3_tagged = map tag_token toks\<rparr>)"

text \<open>Steps 3 and 4 of a request on the corrected text, as the orchestrator chains them.\<close>

definition steps_3_4 ::
  "(string \<Rightarrow> string list) \<Rightarrow> (string \<Rightarrow> ft_prediction) \<Rightarrow> string \<Rightarrow>
   step3_result \<times> detection" where
  "steps_3_4 pre_tokenize fasttext corrected_text =
     (let r = tokenize_step3_strict pre_tokenize fasttext corrected_text
      in (r, detect None True corrected_text (step3_tagged r) (Some (step3_language r))
                (step3_confidence r)))"

section \<open>Step 1: the input adapter (input\_handler.py)\<close>

text \<open>
  The product record that the scraper returns, with the fields \<open>_product_to_text\<close> reads.
  A text field that is missing or empty is the empty string; \<open>specs\<close> is a dictionary
  from names to values, in insertion order; \<open>price\<close> and \<open>rating\<close> are numbers, present
  here as the text that string formatting gives them, and absent when missing or zero.
\<close>

record product =
  product_name :: string
  product_specs :: "(string \<times> string) list"
  product_price :: "string option"
  product_category :: string
  product_brand :: string
  product_rating :: "string option"

text \<open>\<open>InputHandler._product_to_text\<close>.\<close>

definition product_to_text :: "product \<Rightarrow> string" where
  "product_to_text p =
     (let parts =
            (if product_name p \<noteq> [] then [product_name p] else [])
            @ concat (map (\<lambda>(key, v). if v \<noteq> [] then [key @ '' '' @ v] else [])
                          (product_specs p))
            @ (case product_price p of None \<Rightarrow> [] | Some v \<Rightarrow> [''price '' @ v])
            @ (if product_category p \<noteq> [] then [product_category p] else [])
            @ (if product_brand p \<noteq> []
                  \<and> \<not> contains (lower (product_name p)) (lower (product_brand p))
               then [product_brand p] else [])
            @ (case product_rating p of None \<Rightarrow> [] | Some v \<Rightarrow> [''rating '' @ v])
      in join '' '' parts)"

text \<open>
  What lies outside the program: \<open>urlparse(url).netloc\<close> (\<open>None\<close> when \<open>urlparse\<close>
  raises), the final URL of the \<open>HEAD\<close> request that follows redirects (\<open>None\<close> when the
  request raises), and what \<open>ProductScraper().scrape_product(url)\<close> returns (\<open>None\<close> for a
  nullish result, a failed import or an exception).
\<close>

record world =
  urlparse_netloc :: "string \<Rightarrow> string option"
  head_url :: "string \<Rightarrow> string option"
  scrape_product :: "string \<Rightarrow> product option"

text \<open>The dictionary that \<open>process\<close> returns; a key that is not set is \<open>None\<close>.\<close>

record processed_input =
  input_type :: string
  original_input :: string
  original_url :: "string option"
  expanded_url :: "string option"
  query_text :: string
  platform :: "string option"
  product_id :: "string option"
  product_data :: "product option"
  cache_hit :: "bool option"

definition URL_SHORTENERS :: "string list" where
  "URL_SHORTENERS = [''bit.ly'', ''tinyurl.com'', ''goo.gl'', ''t.co'', ''ow.ly'',
                     ''is.gd'', ''buff.ly'', ''adf.ly'', ''short.io'', ''rb.gy'']"

text \<open>\<open>InputHandler._looks_like_url_fast\<close>.\<close>

definition looks_like_url_fast :: "string \<Rightarrow> bool" where
  "looks_like_url_fast text =
     (let text_lower = lower text
      in startswith text_lower ''http://'' \<or> startswith text_lower ''https://''
         \<or> startswith text_lower ''www.''
         \<or> contains text_lower ''.com'' \<or> contains text_lower ''.in''
         \<or> contains text_lower ''.org'' \<or> contains text_lower ''.ly'')"

text \<open>
  \<open>InputHandler._is_url\<close>: a search for \<open>^https?://|^www\.|\.[a-z]{2,}/\<close> with
  \<open>IGNORECASE\<close>. The third alternative matches at a dot that is followed by a run of at
  least two letters and then a slash; the slash is no letter, so the run is the longest one.
\<close>

fun any_suffix :: "(string \<Rightarrow> bool) \<Rightarrow> string \<Rightarrow> bool" where
  "any_suffix P [] = P []"
| "any_suffix P (c # cs) = (P (c # cs) \<or> any_suffix P cs)"

definition domain_extension_at :: "string \<Rightarrow> bool" where
  "domain_extension_at s =
     (case s of
        [] \<Rightarrow> False
      | c # r \<Rightarrow> c = CHR ''.'' \<and> length (takeWhile re_az r) \<ge> 2
                 \<and> startswith (dropWhile re_az r) ''/'')"

definition is_url :: "string \<Rightarrow> bool" where
  "is_url text =
     (startswith (lower text) ''http://'' \<or> startswith (lower text) ''https://''
      \<or> startswith (lower text) ''www.'' \<or> any_suffix domain_extension_at text)"

text \<open>
  \<open>s.replace(old, '')\<close> for a non-empty \<open>old\<close>: reading from the left, an occurrence of
  \<open>old\<close> is skipped (\<open>skip\<close> counts the characters of it still to be dropped) and any
  other character is kept.
\<close>

fun remove_from :: "string \<Rightarrow> nat \<Rightarrow> string \<Rightarrow> string" where
  "remove_from old skip [] = []"
| "remove_from old skip (c # cs) =
     (case skip of
        Suc k \<Rightarrow> remove_from old k cs
      | 0 \<Rightarrow> if startswith (c # cs) old then remove_from old (length old - 1) cs
             else c # remove_from old 0 cs)"

definition remove_all :: "string \<Rightarrow> string \<Rightarrow> string" where
  "remove_all s old = remove_from old 0 s"

text \<open>The domain both URL helpers compute; \<open>None\<close> when \<open>urlparse\<close> raises.\<close>

definition url_domain :: "world \<Rightarrow> string \<Rightarrow> string option" where
  "url_domain w url =
     (case urlparse_netloc w url of
        None \<Rightarrow> None
      | Some netloc \<Rightarrow> Some (remove_all (lower netloc) ''www.''))"

text \<open>\<open>InputHandler._is_shortened_url\<close>; an exception gives \<open>False\<close>.\<close>

definition is_shortened_url :: "world \<Rightarrow> string \<Rightarrow> bool" where
  "is_shortened_url w url =
     (case url_domain w url of
        None \<Rightarrow> False
      | Some domain \<Rightarrow> list_ex (\<lambda>shortener. contains domain shortener) URL_SHORTENERS)"

text \<open>
  \<open>InputHandler._expand_url\<close>: the scheme is added when the URL does not start with
  \<open>http\<close>; when the request raises, the URL with the scheme added is returned.
\<close>

definition expand_url :: "world \<Rightarrow> string \<Rightarrow> string" where
  "expand_url w short_url =
     (let short_url1 = (if \<not> startswith short_url ''http'' then ''https://'' @ short_url
                        else short_url)
      in case head_url w short_url1 of
           Some final_url \<Rightarrow> final_url
         | None \<Rightarrow> short_url1)"

text \<open>
  \<open>re.search\<close> returns the leftmost match: \<open>first_match m s\<close> tries the matcher \<open>m\<close> at
  each position of \<open>s\<close> from the left and returns the group it captures. The three
  patterns of \<open>_extract_platform_info\<close> are \<open>/dp/([A-Z0-9]{10})\<close>,
  \<open>pid=([A-Z0-9]+)\<close> and \<open>/(\d+)/buy\<close>.
\<close>

fun first_match :: "(string \<Rightarrow> string option) \<Rightarrow> string \<Rightarrow> string option" where
  "first_match m [] = m []"
| "first_match m (c # cs) = (case m (c # cs) of Some g \<Rightarrow> Some g | None \<Rightarrow> first_match m cs)"

definition re_upper_digit :: "char \<Rightarrow> bool" where
  "re_upper_digit c = ((65 \<le> ord c \<and> ord c \<le> 90) \<or> (48 \<le> ord c \<and> ord c \<le> 57))"

definition asin_at :: "string \<Rightarrow> string option" where
  "asin_at s =
     (if startswith s ''/dp/'' \<and> length (takeWhile re_upper_digit (drop 4 s)) \<ge> 10
      then Some (take 10 (drop 4 s)) else None)"

definition pid_at :: "string \<Rightarrow> string option" where
  "pid_at s =
     (if startswith s ''pid='' \<and> takeWhile re_upper_digit (drop 4 s) \<noteq> []
      then Some (takeWhile re_upper_digit (drop 4 s)) else None)"

definition myntra_id_at :: "string \<Rightarrow> string option" where
  "myntra_id_at s =
     (if startswith s ''/'' \<and> takeWhile re_digit (drop 1 s) \<noteq> []
         \<and> startswith (dropWhile re_digit (drop 1 s)) ''/buy''
      then Some (takeWhile re_digit (drop 1 s)) else None)"

text \<open>
  \<open>InputHandler._extract_platform_info\<close>: the platform and the product id; both are
  \<open>None\<close> when \<open>urlparse\<close> raises.
\<close>

definition extract_platform_info :: "world \<Rightarrow> string \<Rightarrow> string option \<times> string option" where
  "extract_platform_info w url =
     (case url_domain w url of
        None \<Rightarrow> (None, None)
      | Some domain \<Rightarrow>
          if contains domain ''amazon'' then (Some ''amazon'', first_match asin_at url)
          else if contains domain ''flipkart'' then (Some ''flipkart'', first_match pid_at url)
          else if contains domain ''myntra'' then (Some ''myntra'', first_match myntra_id_at url)
          else if contains domain ''snapdeal'' then (Some ''snapdeal'', None)
          else if contains domain ''ajio'' then (Some ''ajio'', None)
          else if contains domain ''meesho'' then (Some ''meesho'', None)
          else (None, None))"

text \<open>
  \<open>InputHandler._scrape_product_url\<close>: the scraper's record, if it has a name.
\<close>

definition scrape_product_url :: "world \<Rightarrow> string \<Rightarrow> product option" where
  "scrape_product_url w url =
     (case scrape_product w url of
        None \<Rightarrow> None
      | Some p \<Rightarrow> if product_name p \<noteq> [] then Some p else None)"

text \<open>
  \<open>InputHandler.process\<close>, with the class-level product cache passed in and returned.
  The second cache key is built with \<open>result.get('product_id', ...)\<close>; the key
  \<open>product_id\<close> is always set, so a missing product id is formatted as \<open>None\<close>.
\<close>

definition text_result :: "string \<Rightarrow> processed_input" where
  "text_result user_input =
     \<lparr>input_type = ''text'', original_input = user_input, original_url = None,
      expanded_url = None, query_text = user_input, platform = None, product_id = None,
      product_data = None, cache_hit = None\<rparr>"

definition process_expanded ::
  "world \<Rightarrow> (string \<times> product) list \<Rightarrow> processed_input \<Rightarrow> string
     \<Rightarrow> processed_input \<times> (string \<times> product) list" where
  "process_expanded w product_cache result0 user_input =
     (let expanded = (if is_shortened_url w user_input then expand_url w user_input
                      else user_input);
          result1 = result0\<lparr>expanded_url := Some expanded\<rparr>;
          platform_info = extract_platform_info w expanded;
          result2 = result1\<lparr>platform := fst platform_info, product_id := snd platform_info\<rparr>
      in case platform result2 of
           None \<Rightarrow> (result2\<lparr>query_text := expanded\<rparr>, product_cache)
         | Some pf \<Rightarrow>
             let cache_key = pf @ '':'' @ (case product_id result2 of
                                             None \<Rightarrow> ''None'' | Some pid \<Rightarrow> pid)
             in case map_of product_cache cache_key of
                  Some cached \<Rightarrow>
                    (result2\<lparr>product_data := Some cached,
                             query_text := product_to_text cached,
                             cache_hit := Some True\<rparr>, product_cache)
                | None \<Rightarrow>
                    (case scrape_product_url w expanded of
                       Some scraped \<Rightarrow>
                         (result2\<lparr>product_data := Some scraped,
                                  query_text := product_to_text scraped,
                                  cache_hit := Some False\<rparr>,
                          cache_product product_cache cache_key scraped)
                     | None \<Rightarrow>
                         (result2\<lparr>query_text := expanded, cache_hit := Some False\<rparr>,
                          product_cache)))"

definition input_handler_process ::
  "world \<Rightarrow> (string \<times> product) list \<Rightarrow> string
     \<Rightarrow> processed_input \<times> (string \<times> product) list" where
  "input_handler_process w product_cache raw_input =
     (let user_input = strip raw_input
      in if \<not> looks_like_url_fast user_input then (text_result user_input, product_cache)
         else if \<not> is_url user_input then (text_result user_input, product_cache)
         else
           let result0 = (text_result user_input)
                           \<lparr>input_type := ''url'', original_url := Some user_input\<rparr>;
               quick = extract_platform_info w user_input;
               quick_hit = (case quick of
                              (Some pf, Some pid) \<Rightarrow> map_of product_cache (pf @ '':'' @ pid)
                            | _ \<Rightarrow> None)
           in case quick_hit of
                Some cached \<Rightarrow>
                  (result0\<lparr>platform := fst quick, product_id := snd quick,
                           expanded_url := Some user_input,
                           product_data := Some cached,
                           query_text := product_to_text cached,
                           cache_hit := Some True\<rparr>, product_cache)
              | None \<Rightarrow> process_expanded w product_cache result0 user_input)"

text \<open>
  A world without a network: \<open>urlparse\<close> finds no host, requests raise, the scraper
  returns nothing.
\<close>

definition offline :: world where
  "offline = \<lparr>urlparse_netloc = (\<lambda>url. Some []), head_url = (\<lambda>url. None),
              scrape_product = (\<lambda>url. None)\<rparr>"

text \<open>
  Every product in the cache has a name. The cache is filled by \<open>_cache_product\<close> alone,
  with records that \<open>_scrape_product_url\<close> returned, so this holds of every cache that
  \<open>process\<close> builds from the empty one.
\<close>

definition named_products :: "(string \<times> product) list \<Rightarrow> bool" where
  "named_products product_cache =
     list_all (\<lambda>(cache_key, p). product_name p \<noteq> []) product_cache"

text \<open>
  A world in which the shortened link \<open>https://bit.ly/3abc\<close> redirects to a Flipkart
  product page, every other request raises, and the scraper returns \<open>scraped\<close>; and a
  product record.
\<close>

definition redirecting :: "product option \<Rightarrow> world" where
  "redirecting scraped =
     \<lparr>urlparse_netloc =
        (\<lambda>url. if url = ''https://bit.ly/3abc'' then Some ''bit.ly''
               else if url = ''https://www.flipkart.com/suitcase/p/itm?pid=LUGABC123''
               then Some ''www.flipkart.com'' else Some []),
      head_url =
        (\<lambda>url. if url = ''https://bit.ly/3abc''
               then Some ''https://www.flipkart.com/suitcase/p/itm?pid=LUGABC123'' else None),
      scrape_product = (\<lambda>url. scraped)\<rparr>"

definition suitcase :: product where
  "suitcase = \<lparr>product_name = ''Trolley Suitcase'', product_specs = [(''Size'', ''Cabin'')],
               product_price = Some ''2499.0'', product_category = ''Luggage'',
               product_brand = ''Skybags'', product_rating = None\<rparr>"

section \<open>Properties of the code-mix detector\<close>

text \<open>
  C2. The skip flag derived from a detection result is true exactly when the label is
  \<open>pure_english\<close> with confidence at least 0.75 or \<open>pure_native\<close> with confidence at
  least 0.75; for the labels \<open>romanized_indic\<close>, \<open>mixed\<close> and \<open>ambiguous\<close> it is false
  whatever the confidence.
\<close>

theorem should_skip_step5_iff:
  "(should_skip_step5 d \<longleftrightarrow>
      (label d = ''pure_english'' \<and> confidence d \<ge> 0.75) \<or>
      (label d = ''pure_native'' \<and> confidence d \<ge> 0.75))
   \<and> (label d \<in> {''romanized_indic'', ''mixed'', ''ambiguous''} \<longrightarrow> \<not> should_skip_step5 d)"
  by (auto simp: should_skip_step5_def)

theorem should_skip_step5_iff_witness:
  "should_skip_step5 \<lparr>label = ''pure_native'', confidence = 0.95, detection_method = ''fast_lane'',
                      details_romanized_language = None, skip_step5 = None\<rparr>
   \<and> \<not> should_skip_step5 \<lparr>label = ''pure_english'', confidence = 0.74,
                      detection_method = ''smart_checkpoint_ml'', details_romanized_language = None,
                      skip_step5 = None\<rparr>
   \<and> \<not> should_skip_step5 \<lparr>label = ''mixed'', confidence = 0.85,
                      detection_method = ''smart_checkpoint_fallback'', details_romanized_language = None,
                      skip_step5 = None\<rparr>"
  using should_skip_step5_iff
    [of "\<lparr>label = ''pure_native'', confidence = 0.95, detection_method = ''fast_lane'',
          details_romanized_language = None, skip_step5 = None\<rparr>"]
    should_skip_step5_iff
    [of "\<lparr>label = ''pure_english'', confidence = 0.74, detection_method = ''smart_checkpoint_ml'',
          details_romanized_language = None, skip_step5 = None\<rparr>"]
    should_skip_step5_iff
    [of "\<lparr>label = ''mixed'', confidence = 0.85, detection_method = ''smart_checkpoint_fallback'',
          details_romanized_language = None, skip_step5 = None\<rparr>"]
  by simp

lemma detect_heuristic_rule_b:
  assumes "text \<noteq> []"
    and "word_scripts_of tagged \<noteq> []"
    and "list_all (\<lambda>s. s = ''Latin'') (word_scripts_of tagged)"
    and "language_confidence > 0.85"
  shows "detect_heuristic text tagged (Some ''en'') language_confidence =
           \<lparr>label = ''pure_english'', confidence = language_confidence,
            detection_method = ''fast_lane'', details_romanized_language = None,
            skip_step5 = None\<rparr>"
proof -
  from assms(2) have nonempty: "tagged \<noteq> []"
    by (auto simp: word_scripts_of_def)
  from assms(2,3) obtain s where "s \<in> set (word_scripts_of tagged)" and "s = ''Latin''"
    by (cases "word_scripts_of tagged") auto
  moreover have "''Latin'' \<notin> set native_scripts"
    by (simp add: native_scripts_def)
  ultimately have not_native:
    "\<not> list_all (\<lambda>s. s \<in> set native_scripts) (word_scripts_of tagged)"
    unfolding list_all_iff by blast
  show ?thesis
    using assms nonempty not_native
    by (simp add: detect_heuristic_def Let_def CONFIDENCE_THRESHOLD_def)
qed

text \<open>
  C4, as amended. For every non-empty query that has at least one word-script token, all of
  them Latin, and for which the language identifier reports \<open>en\<close> with a confidence
  strictly above 0.85, the Fast Lane emits \<open>pure_english\<close> with the confidence of the
  language identifier and the method \<open>fast_lane\<close>.
\<close>

theorem fast_lane_rule_b:
  assumes "text \<noteq> []"
    and "word_scripts_of tagged_tokens \<noteq> []"
    and "list_all (\<lambda>s. s = ''Latin'') (word_scripts_of tagged_tokens)"
    and "language_confidence > 0.85"
  shows "detect_heuristic text tagged_tokens (Some ''en'') language_confidence =
           \<lparr>label = ''pure_english'', confidence = language_confidence,
            detection_method = ''fast_lane'', details_romanized_language = None, skip_step5 = None\<rparr>"
  using assms by (rule detect_heuristic_rule_b)

theorem fast_lane_rule_b_witness:
  "detect_heuristic ''show redmi note 12 pro''
     [\<lparr>token_text = ''show'', script_tag = Some ''Latin''\<rparr>, \<lparr>token_text = ''redmi'', script_tag = Some ''Latin''\<rparr>,
      \<lparr>token_text = ''note'', script_tag = Some ''Latin''\<rparr>, \<lparr>token_text = ''12'', script_tag = Some ''Number''\<rparr>,
      \<lparr>token_text = ''pro'', script_tag = Some ''Latin''\<rparr>]
     (Some ''en'') 0.99 =
   \<lparr>label = ''pure_english'', confidence = 0.99,
    detection_method = ''fast_lane'', details_romanized_language = None, skip_step5 = None\<rparr>"
  by (rule fast_lane_rule_b) (simp_all add: word_scripts_of_def get_script_def)

text \<open>
  The claim as stated includes the confidence 0.85 itself; there the comparison
  \<open>language_confidence > CONFIDENCE_THRESHOLD\<close> fails and the Fast Lane answers
  \<open>ambiguous\<close>.
\<close>

theorem fast_lane_rule_b_counterexample:
  "label (detect_heuristic ''phone'' [\<lparr>token_text = ''phone'', script_tag = Some ''Latin''\<rparr>]
            (Some ''en'') 0.85) = ''ambiguous''
   \<and> detection_method (detect_heuristic ''phone'' [\<lparr>token_text = ''phone'', script_tag = Some ''Latin''\<rparr>]
            (Some ''en'') 0.85) = ''heuristic''"
  by (simp add: detect_heuristic_def Let_def CONFIDENCE_THRESHOLD_def word_scripts_of_def
        get_script_def native_scripts_def hint_in_def native_langs_def ambiguous_heuristic_def)

text \<open>
  The boundary in general: with the hint \<open>en\<close> and a confidence of at most 0.85, whatever
  the text and its tokens, neither rule fires and the Fast Lane answers \<open>ambiguous\<close>.
\<close>

lemma detect_heuristic_up_to_threshold:
  assumes "language_confidence \<le> 0.85"
  shows "detect_heuristic text tagged (Some ''en'') language_confidence = ambiguous_heuristic"
  using assms
  by (simp add: detect_heuristic_def Let_def CONFIDENCE_THRESHOLD_def hint_in_def native_langs_def)

section \<open>Properties of the product cache\<close>

lemma length_dict_set_le: "length (dict_set c k v) \<le> Suc (length c)"
  by (induction c) auto

lemma keys_dict_set: "fst ` set (dict_set c k v) = insert k (fst ` set c)"
proof (induction c)
  case Nil
  show ?case by simp
next
  case (Cons kv c)
  obtain k' v' where kv: "kv = (k', v')" by (cases kv)
  show ?case
  proof (cases "k' = k")
    case True
    then show ?thesis by (simp add: kv)
  next
    case False
    then show ?thesis using Cons.IH by (simp add: kv insert_commute)
  qed
qed

lemma distinct_dict_set: "distinct (map fst c) \<Longrightarrow> distinct (map fst (dict_set c k v))"
  by (induction c) (auto simp: keys_dict_set)

lemma length_dict_del_hd: "c \<noteq> [] \<Longrightarrow> length (dict_del c (fst (hd c))) < length c"
  by (cases c) (auto simp: dict_del_def less_Suc_eq_le)

lemma distinct_dict_del: "distinct (map fst c) \<Longrightarrow> distinct (map fst (dict_del c k))"
  by (simp add: dict_del_def distinct_map_filter)

lemma dict_del_hd_distinct:
  "c \<noteq> [] \<Longrightarrow> distinct (map fst c) \<Longrightarrow> dict_del c (fst (hd c)) = tl c"
proof (cases c)
  case Nil then show "c \<noteq> [] \<Longrightarrow> ?thesis" by simp
next
  case (Cons kv kvs)
  assume "distinct (map fst c)"
  with Cons have "fst kv \<notin> fst ` set kvs" by simp
  then have "\<forall>x \<in> set kvs. fst x \<noteq> fst kv" by (auto simp: image_iff)
  then have "filter (\<lambda>x. fst x \<noteq> fst kv) kvs = kvs" by (simp add: filter_id_conv)
  with Cons show ?thesis by (simp add: dict_del_def)
qed

lemma cache_product_length:
  "length c \<le> cache_max_size \<Longrightarrow> length (cache_product c k v) \<le> cache_max_size"
proof (cases "length c \<ge> cache_max_size")
  case True
  assume "length c \<le> cache_max_size"
  from True have "c \<noteq> []" by (auto simp: cache_max_size_def)
  then have "length (dict_del c (fst (hd c))) < length c" by (rule length_dict_del_hd)
  moreover have "length (dict_set (dict_del c (fst (hd c))) k v)
                   \<le> Suc (length (dict_del c (fst (hd c))))"
    by (rule length_dict_set_le)
  ultimately show ?thesis
    using True \<open>length c \<le> cache_max_size\<close> by (simp add: cache_product_def Let_def)
next
  case False
  have "length (dict_set c k v) \<le> Suc (length c)" by (rule length_dict_set_le)
  with False show ?thesis by (simp add: cache_product_def)
qed

lemma cache_product_distinct:
  "distinct (map fst c) \<Longrightarrow> distinct (map fst (cache_product c k v))"
  by (simp add: cache_product_def Let_def distinct_dict_set distinct_dict_del)

lemma apply_cache_op_inv:
  "length c \<le> cache_max_size \<and> distinct (map fst c) \<Longrightarrow>
   length (apply_cache_op c op) \<le> cache_max_size \<and> distinct (map fst (apply_cache_op c op))"
  by (cases op) (simp_all add: cache_product_length cache_product_distinct clear_cache_def)

lemma run_cache_ops_inv:
  "length c \<le> cache_max_size \<and> distinct (map fst c) \<Longrightarrow>
   length (run_cache_ops c ops) \<le> cache_max_size \<and> distinct (map fst (run_cache_ops c ops))"
  unfolding run_cache_ops_def
proof (induction ops arbitrary: c)
  case Nil
  then show ?case by simp
next
  case (Cons op ops)
  from Cons.prems have "length (apply_cache_op c op) \<le> cache_max_size \<and>
                        distinct (map fst (apply_cache_op c op))"
    by (rule apply_cache_op_inv)
  then show ?case using Cons.IH by simp
qed

text \<open>
  C9. The product scrape cache never holds more than 1,000 entries: every run of cache
  operations from the empty cache stays within the bound, each insertion by
  \<open>_cache_product\<close> preserves it, and an insertion into a cache of 1,000 entries first
  evicts the entry inserted first (the head of the insertion order) and then sets the key.
\<close>

theorem product_cache_bounded:
  "length (run_cache_ops [] ops) \<le> 1000
   \<and> (length c \<le> 1000 \<longrightarrow> length (cache_product c k v) \<le> 1000)
   \<and> (length c = 1000 \<and> distinct (map fst c) \<longrightarrow>
        cache_product c k v = dict_set (tl c) k v)"
proof (intro conjI impI)
  show "length (run_cache_ops [] ops) \<le> 1000"
    using run_cache_ops_inv [of "[]" ops] by (simp add: cache_max_size_def)
  show "length (cache_product c k v) \<le> 1000" if "length c \<le> 1000"
    using that cache_product_length [of c k v] by (simp add: cache_max_size_def)
  show "cache_product c k v = dict_set (tl c) k v"
    if "length c = 1000 \<and> distinct (map fst c)"
  proof -
    from that have "c \<noteq> []" by auto
    with that have "dict_del c (fst (hd c)) = tl c" by (simp add: dict_del_hd_distinct)
    with that show ?thesis by (simp add: cache_product_def cache_max_size_def)
  qed
qed

theorem product_cache_bounded_witness:
  "length (run_cache_ops [] [CacheProduct ''flipkart:A1'' (1::nat), CacheProduct ''amazon:B2'' 2,
                             ClearCache, CacheProduct ''flipkart:A1'' 3]) \<le> 1000
   \<and> length (map (\<lambda>i. (i, i)) [0..<1000::nat]) = 1000
   \<and> distinct (map fst (map (\<lambda>i. (i, i)) [0..<1000::nat]))
   \<and> length (cache_product (map (\<lambda>i. (i, i)) [0..<1000::nat]) 1000 1000) \<le> 1000
   \<and> cache_product (map (\<lambda>i. (i, i)) [0..<1000::nat]) 1000 1000
       = dict_set (tl (map (\<lambda>i. (i, i)) [0..<1000::nat])) 1000 1000"
proof -
  let ?c = "map (\<lambda>i. (i, i)) [0..<1000::nat]"
  have l: "length ?c = 1000" by simp
  have d: "distinct (map fst ?c)" by (simp add: comp_def)
  note t = product_cache_bounded
    [of "[CacheProduct ''flipkart:A1'' (1::nat), CacheProduct ''amazon:B2'' 2,
          ClearCache, CacheProduct ''flipkart:A1'' 3]" ?c 1000 1000]
  from t have a: "length (run_cache_ops [] [CacheProduct ''flipkart:A1'' (1::nat),
                    CacheProduct ''amazon:B2'' 2, ClearCache, CacheProduct ''flipkart:A1'' 3])
                  \<le> 1000"
    by (rule conjunct1)
  from t l have b: "length (cache_product ?c 1000 1000) \<le> 1000"
    by (metis order_refl)
  from t l d have c: "cache_product ?c 1000 1000 = dict_set (tl ?c) 1000 1000"
    by metis
  from a l d b c show ?thesis by (intro conjI)
qed


section \<open>Properties of the transliteration stage\<close>

text \<open>
  C6. \<open>process\<close> returns the query unchanged, as a pass-through result, and leaves the
  client untouched (no call of \<open>transliterate\<close>, hence no remote request) in each of these
  cases: the \<open>native\<close> flag is set and \<open>romanized\<close> is not; neither flag is set; the
  target language resolves to \<open>en\<close>; the resolved target language is not among the
  languages the service supports.
\<close>

theorem process_passthrough:
  assumes "(flag flags ''native'' \<and> \<not> flag flags ''romanized'')
           \<or> (\<not> flag flags ''romanized'' \<and> \<not> flag flags ''native'')
           \<or> resolve_target target_lang romanized_lang = ''en''
           \<or> resolve_target target_lang romanized_lang \<notin> set (supported_languages c)"
  shows "process remote c query flags target_lang romanized_lang
           = (Inr (passthrough query flags), c)
         \<and> normalized_query (passthrough query flags) = query"
  using assms by (auto simp: process_def Let_def passthrough_def)

theorem process_passthrough_witness:
  "process (\<lambda>t l. Transliterated ''x'')
     \<lparr>is_healthy = True, supported_languages = [''hi'', ''bn''], transliterate_calls = []\<rparr>
     ''wireless headphones'' [(''romanized'', False), (''native'', True)] ''hi'' None
   = (Inr (passthrough ''wireless headphones'' [(''romanized'', False), (''native'', True)]),
      \<lparr>is_healthy = True, supported_languages = [''hi'', ''bn''], transliterate_calls = []\<rparr>)
   \<and> process (\<lambda>t l. Transliterated ''x'')
     \<lparr>is_healthy = True, supported_languages = [''hi'', ''bn''], transliterate_calls = []\<rparr>
     ''wireless headphones'' [(''romanized'', False), (''native'', False)] ''hi'' None
   = (Inr (passthrough ''wireless headphones'' [(''romanized'', False), (''native'', False)]),
      \<lparr>is_healthy = True, supported_languages = [''hi'', ''bn''], transliterate_calls = []\<rparr>)
   \<and> process (\<lambda>t l. Transliterated ''x'')
     \<lparr>is_healthy = True, supported_languages = [''hi'', ''bn''], transliterate_calls = []\<rparr>
     ''mujhe phone chahiye'' [(''romanized'', True), (''native'', False)] ''eng'' None
   = (Inr (passthrough ''mujhe phone chahiye'' [(''romanized'', True), (''native'', False)]),
      \<lparr>is_healthy = True, supported_languages = [''hi'', ''bn''], transliterate_calls = []\<rparr>)
   \<and> process (\<lambda>t l. Transliterated ''x'')
     \<lparr>is_healthy = True, supported_languages = [''hi'', ''bn''], transliterate_calls = []\<rparr>
     ''enna phone'' [(''romanized'', True), (''native'', False)] ''en'' (Some ''Tamil'')
   = (Inr (passthrough ''enna phone'' [(''romanized'', True), (''native'', False)]),
      \<lparr>is_healthy = True, supported_languages = [''hi'', ''bn''], transliterate_calls = []\<rparr>)"
proof -
  let ?c = "\<lparr>is_healthy = True, supported_languages = [''hi'', ''bn''],
             transliterate_calls = []\<rparr>"
  let ?r = "\<lambda>(t::string) (l::string). Transliterated ''x''"
  have a: "flag [(''romanized'', False), (''native'', True)] ''native''
           \<and> \<not> flag [(''romanized'', False), (''native'', True)] ''romanized''"
    by (simp add: flag_def dict_get_def)
  have b: "\<not> flag [(''romanized'', False), (''native'', False)] ''romanized''
           \<and> \<not> flag [(''romanized'', False), (''native'', False)] ''native''"
    by (simp add: flag_def dict_get_def)
  have c: "resolve_target ''eng'' None = ''en''"
    by (simp add: resolve_target_def dict_get_def lang_normalization_def)
  have d: "resolve_target ''en'' (Some ''Tamil'') \<notin> set (supported_languages ?c)"
    by (simp add: resolve_target_def dict_get_def lang_normalization_def
          LANGUAGE_NAME_TO_ISO_def lower_def lower_char_def isupper_def ord_def chr_def)
  show ?thesis
    using process_passthrough [of "[(''romanized'', False), (''native'', True)]" "''hi''" None ?c
            ?r "''wireless headphones''"]
          process_passthrough [of "[(''romanized'', False), (''native'', False)]" "''hi''" None ?c
            ?r "''wireless headphones''"]
          process_passthrough [of "[(''romanized'', True), (''native'', False)]" "''eng''" None ?c
            ?r "''mujhe phone chahiye''"]
          process_passthrough [of "[(''romanized'', True), (''native'', False)]" "''en''"
            "Some ''Tamil''" ?c ?r "''enna phone''"]
          a b c d
    by blast
qed

section \<open>Properties of the orchestrator's routing\<close>

lemma detect_pure_native_bn:
  assumes "corrected_text \<noteq> []"
  shows "detect None True corrected_text [\<lparr>token_text = tok, script_tag = Some ''Bengali''\<rparr>]
           (Some ''bn'') lang_confidence
         = \<lparr>label = ''pure_native'', confidence = 0.95, detection_method = ''fast_lane'',
            details_romanized_language = None, skip_step5 = Some True\<rparr>"
  using assms
  by (simp add: detect_def detect_heuristic_def Let_def word_scripts_of_def get_script_def
        native_scripts_def native_langs_def hint_in_def should_skip_step5_def)

lemma translate_uncached_bn:
  assumes "''bn'' \<in> set (supported_languages c)"
  shows "translate_uncached remote c text ''bn''
         = (case transliterate remote c text ''bn'' of
              (Inr r, c') \<Rightarrow> (Inr r, c') | (Inl e, c') \<Rightarrow> (Inl RuntimeError, c'))"
  using assms
  by (simp add: translate_uncached_def process_def Let_def resolve_target_def dict_get_def
        lang_map_def lang_normalization_def flag_def split: prod.splits sum.splits)

lemma transliterate_calls_log:
  "transliterate_calls (snd (transliterate remote c text target))
     = transliterate_calls c @ [(text, target)]"
  by (simp add: transliterate_def Let_def split: response.splits)

text \<open>
  C1. The claim is that a request whose Step 4 result has \<open>skip_step5 = true\<close> never
  reaches the client. The orchestrator does not read the flag: it routes on the label and
  the confidence, and for \<open>pure_native\<close> it calls \<open>_cached_translate\<close>, which sets the
  \<open>romanized\<close> flag for the language codes \<open>hi\<close>, \<open>bn\<close>, ... and never the \<open>native\<close>
  flag. So for a query in Bengali script, identified as \<open>bn\<close>, whose translation is not
  cached, Step 4 sets \<open>skip_step5\<close> and Step 5 still calls the client's \<open>transliterate\<close>
  with the query.
\<close>

theorem pure_native_reaches_client:
  assumes "corrected_text \<noteq> []"
    and "translate_cache st (corrected_text, ''bn'', lang_confidence) = None"
    and "''bn'' \<in> set (supported_languages (client st))"
  shows "skip_step5 (fst (steps_4_5 remote st corrected_text
                      [\<lparr>token_text = tok, script_tag = Some ''Bengali''\<rparr>] ''bn'' lang_confidence))
           = Some True
         \<and> transliterate_calls (client (snd (snd (steps_4_5 remote st corrected_text
                      [\<lparr>token_text = tok, script_tag = Some ''Bengali''\<rparr>] ''bn'' lang_confidence))))
           = transliterate_calls (client st) @ [(corrected_text, ''bn'')]"
proof -
  let ?d = "\<lparr>label = ''pure_native'', confidence = 0.95, detection_method = ''fast_lane'',
             details_romanized_language = None, skip_step5 = Some True\<rparr>"
  have d: "detect None True corrected_text [\<lparr>token_text = tok, script_tag = Some ''Bengali''\<rparr>]
             (Some ''bn'') lang_confidence = ?d"
    using assms(1) by (rule detect_pure_native_bn)
  have s: "step5_translation remote st corrected_text ''bn'' lang_confidence ?d
             = cached_translate remote st corrected_text ''bn'' lang_confidence"
    by (simp add: step5_translation_def Let_def)
  have "transliterate_calls (client (snd (cached_translate remote st corrected_text ''bn''
                                            lang_confidence)))
          = transliterate_calls (snd (transliterate remote (client st) corrected_text ''bn''))"
    using assms(2,3)
    by (simp add: cached_translate_def translate_uncached_bn split: prod.splits sum.splits)
  then have "transliterate_calls (client (snd (cached_translate remote st corrected_text ''bn''
                                            lang_confidence)))
          = transliterate_calls (client st) @ [(corrected_text, ''bn'')]"
    by (simp add: transliterate_calls_log)
  with d s show ?thesis by (simp add: steps_4_5_def Let_def)
qed

theorem pure_native_reaches_client_witness:
  "skip_step5 (fst (steps_4_5 (\<lambda>t l. Transliterated t)
       \<lparr>client = \<lparr>is_healthy = True, supported_languages = [''hi'', ''bn''],
                  transliterate_calls = []\<rparr>,
        translate_cache = Map.empty\<rparr>
       ''native query'' [\<lparr>token_text = ''native'', script_tag = Some ''Bengali''\<rparr>] ''bn'' 0.99))
     = Some True
   \<and> transliterate_calls (client (snd (snd (steps_4_5 (\<lambda>t l. Transliterated t)
       \<lparr>client = \<lparr>is_healthy = True, supported_languages = [''hi'', ''bn''],
                  transliterate_calls = []\<rparr>,
        translate_cache = Map.empty\<rparr>
       ''native query'' [\<lparr>token_text = ''native'', script_tag = Some ''Bengali''\<rparr>] ''bn'' 0.99))))
     = [(''native query'', ''bn'')]"
  using pure_native_reaches_client
    [of "''native query''"
        "\<lparr>client = \<lparr>is_healthy = True, supported_languages = [''hi'', ''bn''],
                    transliterate_calls = []\<rparr>,
          translate_cache = Map.empty\<rparr>" "0.99"
        "\<lambda>t l. Transliterated t" "''native''"]
  by simp

section \<open>Properties of the string primitives\<close>

lemma ord_less_256: "ord c < 256"
  unfolding ord_def by (metis of_char_of char_of_char mod_less_divisor zero_less_numeral)

lemma ord_lower_upper: "isupper c \<Longrightarrow> ord (lower_char c) = ord c + 32"
proof -
  assume u: "isupper c"
  then have "ord c + 32 < 256" unfolding isupper_def by auto
  then have "(ord c + 32) mod 256 = ord c + 32" by simp
  with u show ?thesis by (simp add: lower_char_def chr_def ord_def)
qed

lemma not_isupper_lower_char: "\<not> isupper (lower_char c)"
proof (cases "isupper c")
  case True
  then have "ord (lower_char c) = ord c + 32" by (rule ord_lower_upper)
  with True show ?thesis unfolding isupper_def by auto
next
  case False
  then show ?thesis by (simp add: lower_char_def)
qed

lemma isspace_lower_char: "isspace (lower_char c) = isspace c"
proof (cases "isupper c")
  case True
  then have "ord (lower_char c) = ord c + 32" by (rule ord_lower_upper)
  with True show ?thesis unfolding isupper_def isspace_def by auto
next
  case False
  then show ?thesis by (simp add: lower_char_def)
qed

lemma lower_char_idem: "lower_char (lower_char c) = lower_char c"
  using not_isupper_lower_char [of c] by (simp add: lower_char_def)

lemma lower_idem: "lower (lower s) = lower s"
  by (simp add: lower_def lower_char_idem)

lemma lower_eq_Nil: "lower s = [] \<longleftrightarrow> s = []"
  by (simp add: lower_def)

lemma lower_id: "\<forall>c \<in> set s. \<not> isupper c \<Longrightarrow> lower s = s"
  by (induction s) (auto simp: lower_def lower_char_def)

lemma not_isupper_space: "\<not> isupper (CHR '' '')"
  by (simp add: isupper_def ord_def)

lemma isspace_space: "isspace (CHR '' '')"
  by (simp add: isspace_def ord_def)

lemma split_at_append:
  "\<forall>c \<in> set t. \<not> sep c \<Longrightarrow> split_at sep cur (t @ rest) = split_at sep (cur @ t) rest"
  by (induction t arbitrary: cur) simp_all

lemma split_at_join:
  assumes "sep sp"
    and "\<forall>t \<in> set ts. t \<noteq> [] \<and> (\<forall>c \<in> set t. \<not> sep c)"
  shows "split_at sep [] (join [sp] ts) = ts"
  using assms(2)
proof (induction "[sp]" ts rule: join.induct)
  case 1
  show ?case by simp
next
  case (2 x)
  then have "split_at sep [] (x @ []) = split_at sep ([] @ x) []"
    by (intro split_at_append) simp
  with 2 show ?case by simp
next
  case (3 x y ys)
  then have x: "x \<noteq> []" "\<forall>c \<in> set x. \<not> sep c" by auto
  have "split_at sep [] (x @ sp # join [sp] (y # ys))
          = split_at sep ([] @ x) (sp # join [sp] (y # ys))"
    using x(2) by (rule split_at_append)
  also have "\<dots> = x # split_at sep [] (join [sp] (y # ys))"
    using x(1) assms(1) by simp
  also have "split_at sep [] (join [sp] (y # ys)) = y # ys"
    using 3 by simp
  finally show ?case by simp
qed

lemma split_at_pieces:
  "t \<in> set (split_at sep cur s) \<Longrightarrow> \<forall>c \<in> set cur. \<not> sep c \<Longrightarrow>
   t \<noteq> [] \<and> (\<forall>c \<in> set t. \<not> sep c)"
proof (induction s arbitrary: cur)
  case Nil
  then show ?case by (auto split: if_splits)
next
  case (Cons c s)
  show ?case
  proof (cases "sep c")
    case True
    with Cons.prems(1) have "(cur \<noteq> [] \<and> t = cur) \<or> t \<in> set (split_at sep [] s)"
      by (auto split: if_splits)
    then show ?thesis using Cons.IH [of "[]"] Cons.prems(2) by auto
  next
    case False
    with Cons.prems(1) have "t \<in> set (split_at sep (cur @ [c]) s)" by simp
    moreover from False Cons.prems(2) have "\<forall>c' \<in> set (cur @ [c]). \<not> sep c'" by simp
    ultimately show ?thesis by (rule Cons.IH)
  qed
qed

lemma split_at_chars:
  "t \<in> set (split_at sep cur s) \<Longrightarrow> set t \<subseteq> set cur \<union> set s"
proof (induction s arbitrary: cur)
  case Nil
  then show ?case by (auto split: if_splits)
next
  case (Cons c s)
  show ?case
  proof (cases "sep c")
    case True
    with Cons.prems have "t = cur \<or> t \<in> set (split_at sep [] s)"
      by (auto split: if_splits)
    then show ?thesis using Cons.IH [of "[]"] by auto
  next
    case False
    with Cons.prems have "t \<in> set (split_at sep (cur @ [c]) s)" by simp
    then show ?thesis using Cons.IH [of "cur @ [c]"] by auto
  qed
qed

lemma split_is_token: "t \<in> set (split s) \<Longrightarrow> is_token t"
  using split_at_pieces [of t isspace "[]" s]
  by (simp add: split_def is_token_def list_all_iff)

lemma split_no_upper: "no_upper s \<Longrightarrow> t \<in> set (split s) \<Longrightarrow> no_upper t"
  using split_at_chars [of t isspace "[]" s]
  by (auto simp: split_def no_upper_def list_all_iff)

lemma no_upper_lower: "no_upper (lower s)"
  by (simp add: no_upper_def lower_def list_all_iff not_isupper_lower_char)

lemma lower_no_upper: "no_upper s \<Longrightarrow> lower s = s"
  by (simp add: no_upper_def list_all_iff lower_id)

lemma split_join:
  "\<forall>t \<in> set ts. is_token t \<Longrightarrow> split (join '' '' ts) = ts"
  unfolding split_def
  by (rule split_at_join) (auto simp: isspace_space is_token_def list_all_iff)

lemma no_upper_join:
  "\<forall>t \<in> set ts. no_upper t \<Longrightarrow> no_upper (join '' '' ts)"
  by (induction "'' ''" ts rule: join.induct)
     (auto simp: no_upper_def not_isupper_space)

section \<open>Properties of the spell corrector\<close>

lemmas char_eval = ord_def isspace_def isupper_def is_token_def no_upper_def

lemma dict_get_cases: "dict_get d k k = k \<or> dict_get d k k \<in> snd ` set d"
proof (cases "map_of d k")
  case None
  then show ?thesis by (simp add: dict_get_def)
next
  case (Some v)
  then have "(k, v) \<in> set d" by (rule map_of_SomeD)
  then have "v \<in> snd ` set d" by force
  with Some show ?thesis by (simp add: dict_get_def)
qed

lemma unit_values_ok: "\<forall>v \<in> snd ` set UNIT_PATTERNS. is_token v \<and> no_upper v"
  by (simp add: UNIT_PATTERNS_def char_eval)

lemma unit_token_ok: "is_token t \<Longrightarrow> no_upper t \<Longrightarrow> is_token (unit_token t) \<and> no_upper (unit_token t)"
  using dict_get_cases [of UNIT_PATTERNS t] unit_values_ok
  by (auto simp: unit_token_def)

lemma normalize_units_ok:
  "no_upper (normalize_units text)
   \<and> join '' '' (split (normalize_units text)) = normalize_units text"
proof -
  let ?ts = "split (lower text)"
  have ts: "\<forall>t \<in> set ?ts. is_token t \<and> no_upper t"
    using split_is_token split_no_upper no_upper_lower by blast
  then have us: "\<forall>t \<in> set (map unit_token ?ts). is_token t \<and> no_upper t"
    using unit_token_ok by auto
  then have "no_upper (join '' '' (map unit_token ?ts))"
    by (intro no_upper_join) blast
  moreover from us have "split (join '' '' (map unit_token ?ts)) = map unit_token ?ts"
    by (intro split_join) blast
  ultimately show ?thesis by (simp add: normalize_units_def)
qed

lemma apply_rewrite_rules_lower: "apply_rewrite_rules (lower text) = apply_rewrite_rules text"
  by (simp add: apply_rewrite_rules_def lower_idem)

text \<open>
  On texts of code points up to 255, and whatever the dictionary lookup returns, the string
  that \<open>correct\<close> returns (with unit normalization, the default) contains no upper-case
  character and is its tokens joined by single spaces; and with either setting of the flag
  \<open>correct text\<close> equals \<open>correct\<close> of the lower-cased text.
\<close>

lemma correct_latin1_lowercase:
  "no_upper (correct lookup text True)
   \<and> join '' '' (split (correct lookup text True)) = correct lookup text True
   \<and> correct lookup text units = correct lookup (lower text) units"
proof (intro conjI)
  show "no_upper (correct lookup text True)"
    using normalize_units_ok by (simp add: correct_def correct_cached_def Let_def no_upper_def)
  show "join '' '' (split (correct lookup text True)) = correct lookup text True"
    using normalize_units_ok by (simp add: correct_def correct_cached_def Let_def split_def)
  show "correct lookup text units = correct lookup (lower text) units"
    by (simp add: correct_def correct_cached_def apply_rewrite_rules_lower lower_eq_Nil)
qed

lemma rewrite_values_ok:
  "\<forall>v \<in> snd ` set REWRITE_RULES. is_token v \<and> no_upper v \<and> rewrite_token v = v"
  by (simp add: REWRITE_RULES_def char_eval rewrite_token_def dict_get_def)

lemma dict_terms_tokens: "\<forall>d \<in> fst ` set ecommerce_terms. is_token d \<and> no_upper d"
  by (simp add: ecommerce_terms_def char_eval)

lemma dict_terms_rewrite: "\<forall>d \<in> fst ` set ecommerce_terms. rewrite_token d = d"
  by (simp add: ecommerce_terms_def rewrite_token_def dict_get_def REWRITE_RULES_def)

lemma dict_terms_unit:
  "\<forall>d \<in> fst ` set ecommerce_terms. unit_token d = d \<or> d = ''taka''"
  by (simp add: ecommerce_terms_def unit_token_def dict_get_def UNIT_PATTERNS_def)

lemma dict_terms_ok:
  "\<forall>d \<in> fst ` set ecommerce_terms.
      is_token d \<and> no_upper d \<and> rewrite_token d = d \<and> (unit_token d = d \<or> d = ''taka'')"
  using dict_terms_tokens dict_terms_rewrite dict_terms_unit by blast

lemma set_insert_suggestion: "set (insert_suggestion s xs) = insert s (set xs)"
  by (induction xs) auto

lemma set_sort_suggestions: "set (sort_suggestions xs) = set xs"
  by (induction xs) (simp_all add: sort_suggestions_def set_insert_suggestion)

lemma candidates_terms: "s \<in> set (candidates k phrase) \<Longrightarrow> sugg_term s \<in> fst ` set ecommerce_terms"
  by (force simp: candidates_def sugg_term_def split: option.splits)

lemma symspell_correct_cases:
  "symspell_correct (symspell_lookup k) t = t
   \<or> symspell_correct (symspell_lookup k) t \<in> fst ` set ecommerce_terms"
proof (cases "map_of ecommerce_terms t")
  case (Some c)
  then show ?thesis
    by (simp add: symspell_correct_def symspell_lookup_def sugg_term_def)
next
  case None
  show ?thesis
  proof (cases "sort_suggestions (candidates k t)")
    case Nil
    with None show ?thesis by (simp add: symspell_correct_def symspell_lookup_def)
  next
    case (Cons s ss)
    then have "s \<in> set (sort_suggestions (candidates k t))" by simp
    then have "s \<in> set (candidates k t)" by (simp add: set_sort_suggestions)
    then have "sugg_term s \<in> fst ` set ecommerce_terms" by (rule candidates_terms)
    with None Cons show ?thesis by (simp add: symspell_correct_def symspell_lookup_def)
  qed
qed

lemma symspell_correct_dict:
  assumes "d \<in> fst ` set ecommerce_terms"
  shows "symspell_correct (symspell_lookup k) d = d"
proof -
  from assms have "map_of ecommerce_terms d \<noteq> None" by (simp add: map_of_eq_None_iff)
  then obtain c where "map_of ecommerce_terms d = Some c" by blast
  then show ?thesis
    by (simp add: symspell_correct_def symspell_lookup_def sugg_term_def sugg_distance_def)
qed

lemma rewrite_token_ok:
  "is_token t \<and> no_upper t \<Longrightarrow> is_token (rewrite_token t) \<and> no_upper (rewrite_token t)"
  using dict_get_cases [of REWRITE_RULES t] rewrite_values_ok
  by (auto simp: rewrite_token_def)

lemma rewrite_token_idem: "rewrite_token (rewrite_token t) = rewrite_token t"
  using dict_get_cases [of REWRITE_RULES t] rewrite_values_ok
  by (auto simp: rewrite_token_def)

lemma correct_token_cases:
  "correct_token (symspell_lookup k) t = t
   \<or> correct_token (symspell_lookup k) t \<in> fst ` set ecommerce_terms"
  using symspell_correct_cases [of k t] by (simp add: correct_token_def)

lemma correct_token_dict:
  "d \<in> fst ` set ecommerce_terms \<Longrightarrow> correct_token (symspell_lookup k) d = d"
  by (simp add: correct_token_def symspell_correct_dict)

lemma correct_token_ok:
  "is_token t \<and> no_upper t \<Longrightarrow>
   is_token (correct_token (symspell_lookup k) t) \<and> no_upper (correct_token (symspell_lookup k) t)"
  using correct_token_cases [of k t] dict_terms_ok by auto

lemma default_token_ok:
  assumes "is_token t \<and> no_upper t"
  shows "is_token (default_token t) \<and> no_upper (default_token t)"
proof -
  from assms have "is_token (rewrite_token t) \<and> no_upper (rewrite_token t)"
    by (rule rewrite_token_ok)
  then have "is_token (correct_token (symspell_lookup max_edit_distance) (rewrite_token t))
           \<and> no_upper (correct_token (symspell_lookup max_edit_distance) (rewrite_token t))"
    by (rule correct_token_ok)
  then show ?thesis
    using unit_token_ok by (simp add: default_token_def)
qed

lemma join_tokens_roundtrip:
  assumes "\<forall>t \<in> set ts. is_token t \<and> no_upper t"
  shows "split (lower (join '' '' ts)) = ts"
proof -
  from assms have "no_upper (join '' '' ts)" by (intro no_upper_join) blast
  then have "lower (join '' '' ts) = join '' '' ts" by (rule lower_no_upper)
  moreover from assms have "split (join '' '' ts) = ts" by (intro split_join) blast
  ultimately show ?thesis by simp
qed

lemma split_lower_tokens: "\<forall>t \<in> set (split (lower x)). is_token t \<and> no_upper t"
  using split_is_token split_no_upper no_upper_lower by blast

lemma default_correct_tokens:
  "default_correct x = join '' '' (map default_token (split (lower x)))"
proof (cases "x = []")
  case True
  then show ?thesis
    by (simp add: default_correct_def correct_def lower_def split_def)
next
  case False
  let ?L = "symspell_lookup max_edit_distance"
  let ?ts = "split (lower x)"
  let ?rs = "map rewrite_token ?ts"
  let ?cs = "map (correct_token ?L) ?rs"
  have rs: "\<forall>t \<in> set ?rs. is_token t \<and> no_upper t"
    using split_lower_tokens [of x] rewrite_token_ok by auto
  then have cs: "\<forall>t \<in> set ?cs. is_token t \<and> no_upper t"
    using correct_token_ok by auto
  from rs have "split (join '' '' ?rs) = ?rs" by (intro split_join) blast
  then have 1: "split (apply_rewrite_rules x) = ?rs"
    by (simp add: apply_rewrite_rules_def)
  from cs have 2: "split (lower (join '' '' ?cs)) = ?cs" by (rule join_tokens_roundtrip)
  have "correct_cached ?L x True = join '' '' (map unit_token ?cs)"
    unfolding correct_cached_def Let_def normalize_units_def 1 2 by simp
  moreover have "default_token = (\<lambda>t. unit_token (correct_token ?L (rewrite_token t)))"
    by (rule ext) (simp add: default_token_def)
  ultimately show ?thesis
    using False by (simp add: default_correct_def correct_def comp_def)
qed

lemma split_default_correct:
  "split (lower (default_correct x)) = map default_token (split (lower x))"
  unfolding default_correct_tokens
  by (rule join_tokens_roundtrip) (use split_lower_tokens [of x] default_token_ok in auto)


lemmas lower_eval = lower_def lower_char_def isupper_def ord_def chr_def char_of_def bit_Suc_0_iff
lemmas preserve_eval = should_preserve_def PRESERVE_PATTERNS_def digits_then_def re_digit_def
  re_az_def ord_def
lemmas lookup_eval = symspell_lookup_def candidates_def edit_distance_def ecommerce_terms_def
  sort_suggestions_def sugg_less_def sugg_distance_def sugg_count_def max_edit_distance_def

lemma default_token_rupees: "default_token ''rupees'' = ''rupees''"
proof -
  have d: "''rupees'' \<in> fst ` set ecommerce_terms" by (simp add: ecommerce_terms_def)
  with dict_terms_ok have "rewrite_token ''rupees'' = ''rupees''" by blast
  moreover from d have "correct_token (symspell_lookup max_edit_distance) ''rupees'' = ''rupees''"
    by (rule correct_token_dict)
  moreover have "unit_token ''rupees'' = ''rupees''"
    by (simp add: unit_token_def dict_get_def UNIT_PATTERNS_def)
  ultimately show ?thesis by (simp add: default_token_def)
qed

lemma default_token_unchanged:
  assumes "rewrite_token t = t" and "\<not> should_preserve t"
    and "symspell_lookup max_edit_distance t = []" and "unit_token t = t"
  shows "default_token t = t"
  using assms by (simp add: default_token_def correct_token_def symspell_correct_def)

lemma default_token_pieces: "default_token ''pieces'' = ''pieces''"
proof (rule default_token_unchanged)
  show "rewrite_token ''pieces'' = ''pieces''"
    by (simp add: rewrite_token_def dict_get_def REWRITE_RULES_def)
  show "\<not> should_preserve ''pieces''" by (simp add: preserve_eval)
  show "symspell_lookup max_edit_distance ''pieces'' = []" by (simp add: lookup_eval)
  show "unit_token ''pieces'' = ''pieces''"
    by (simp add: unit_token_def dict_get_def UNIT_PATTERNS_def)
qed

lemma default_token_kilogram: "default_token ''kilogram'' = ''kilogram''"
proof (rule default_token_unchanged)
  show "rewrite_token ''kilogram'' = ''kilogram''"
    by (simp add: rewrite_token_def dict_get_def REWRITE_RULES_def)
  show "\<not> should_preserve ''kilogram''" by (simp add: preserve_eval)
  show "symspell_lookup max_edit_distance ''kilogram'' = []" by (simp add: lookup_eval)
  show "unit_token ''kilogram'' = ''kilogram''"
    by (simp add: unit_token_def dict_get_def UNIT_PATTERNS_def)
qed

lemma default_token_liter: "default_token ''liter'' = ''liter''"
proof (rule default_token_unchanged)
  show "rewrite_token ''liter'' = ''liter''"
    by (simp add: rewrite_token_def dict_get_def REWRITE_RULES_def)
  show "\<not> should_preserve ''liter''" by (simp add: preserve_eval)
  show "symspell_lookup max_edit_distance ''liter'' = []" by (simp add: lookup_eval)
  show "unit_token ''liter'' = ''liter''"
    by (simp add: unit_token_def dict_get_def UNIT_PATTERNS_def)
qed

lemma default_token_milliliter: "default_token ''milliliter'' = ''milliliter''"
proof (rule default_token_unchanged)
  show "rewrite_token ''milliliter'' = ''milliliter''"
    by (simp add: rewrite_token_def dict_get_def REWRITE_RULES_def)
  show "\<not> should_preserve ''milliliter''" by (simp add: preserve_eval)
  show "symspell_lookup max_edit_distance ''milliliter'' = []" by (simp add: lookup_eval)
  show "unit_token ''milliliter'' = ''milliliter''"
    by (simp add: unit_token_def dict_get_def UNIT_PATTERNS_def)
qed

lemma unit_values:
  "snd ` set UNIT_PATTERNS
     = {''rupees'', ''pieces'', ''kilogram'', ''gram'', ''liter'', ''milliliter''}"
  by (auto simp: UNIT_PATTERNS_def)

lemma default_token_idem:
  assumes "default_token t \<noteq> ''gram''"
  shows "default_token (default_token t) = default_token t"
proof -
  let ?L = "symspell_lookup max_edit_distance"
  let ?r = "rewrite_token t"
  let ?s = "correct_token ?L ?r"
  let ?u = "unit_token ?s"
  have u: "default_token t = ?u" by (simp add: default_token_def)
  show ?thesis
  proof (cases "?u = ?s")
    case False
    with dict_get_cases [of UNIT_PATTERNS ?s] have "?u \<in> snd ` set UNIT_PATTERNS"
      by (simp add: unit_token_def)
    with assms u have "?u \<in> {''rupees'', ''pieces'', ''kilogram'', ''liter'', ''milliliter''}"
      by (auto simp: unit_values)
    then have "default_token ?u = ?u"
      using default_token_rupees default_token_pieces default_token_kilogram
        default_token_liter default_token_milliliter by auto
    with u show ?thesis by simp
  next
    case True
    show ?thesis
    proof (cases "?s = ?r")
      case same: True
      have "default_token ?s = unit_token (correct_token ?L (rewrite_token ?r))"
        using same by (simp add: default_token_def)
      also have "\<dots> = ?u" by (simp add: rewrite_token_idem)
      finally show ?thesis using u True by simp
    next
      case False
      with correct_token_cases [of max_edit_distance ?r]
      have d: "?s \<in> fst ` set ecommerce_terms" by simp
      with dict_terms_ok have "rewrite_token ?s = ?s" by blast
      moreover from d have "correct_token ?L ?s = ?s" by (rule correct_token_dict)
      ultimately have "default_token ?s = ?u" by (simp add: default_token_def)
      with u True show ?thesis by simp
    qed
  qed
qed

text \<open>
  C5, as amended. With the default dictionary and settings, correcting twice gives the same
  as correcting once for every input whose corrected form does not contain the token
  \<open>gram\<close>.
\<close>

theorem correct_idempotent_without_gram:
  assumes "''gram'' \<notin> set (split (default_correct x))"
  shows "default_correct (default_correct x) = default_correct x"
proof -
  let ?ts = "split (lower x)"
  have "no_upper (default_correct x)"
    unfolding default_correct_tokens
    by (rule no_upper_join) (use split_lower_tokens [of x] default_token_ok in auto)
  then have "lower (default_correct x) = default_correct x" by (rule lower_no_upper)
  with split_default_correct [of x]
  have s: "split (default_correct x) = map default_token ?ts" by simp
  with assms have "''gram'' \<notin> default_token ` set ?ts" by simp
  then have "\<forall>t \<in> set ?ts. default_token t \<noteq> ''gram''" by (metis imageI)
  then have "\<forall>t \<in> set ?ts. default_token (default_token t) = default_token t"
    by (simp add: default_token_idem)
  then have "map default_token (map default_token ?ts) = map default_token ?ts"
    by simp
  moreover have "default_correct (default_correct x)
                   = join '' '' (map default_token (map default_token ?ts))"
    unfolding default_correct_tokens [of "default_correct x"] split_default_correct [of x] ..
  ultimately show ?thesis by (simp only: default_correct_tokens [of x])
qed

lemma default_correct_gm: "default_correct ''gm'' = ''gram''"
proof -
  have "split (lower ''gm'') = [''gm'']" by (simp add: lower_eval split_def isspace_def)
  moreover have "default_token ''gm'' = ''gram''"
    by (simp add: default_token_def rewrite_token_def unit_token_def dict_get_def
          REWRITE_RULES_def UNIT_PATTERNS_def correct_token_def should_preserve_def)
  ultimately show ?thesis by (simp add: default_correct_tokens)
qed

lemma default_correct_gram: "default_correct ''gram'' = ''ram''"
proof -
  have "split (lower ''gram'') = [''gram'']" by (simp add: lower_eval split_def isspace_def)
  moreover have "default_token ''gram'' = ''ram''"
  proof -
    have "rewrite_token ''gram'' = ''gram''"
      by (simp add: rewrite_token_def dict_get_def REWRITE_RULES_def)
    moreover have "\<not> should_preserve ''gram''" by (simp add: preserve_eval)
    moreover have "symspell_lookup max_edit_distance ''gram'' = [(''ram'', 1, 25000)]"
      by (simp add: lookup_eval)
    moreover have "unit_token ''ram'' = ''ram''"
      by (simp add: unit_token_def dict_get_def UNIT_PATTERNS_def)
    ultimately show ?thesis
      by (simp add: default_token_def correct_token_def symspell_correct_def
            sugg_distance_def sugg_term_def)
  qed
  ultimately show ?thesis by (simp add: default_correct_tokens)
qed

text \<open>
  The claim as stated fails: unit normalization turns \<open>gm\<close> into \<open>gram\<close>, which is
  not in the dictionary and has \<open>ram\<close> at edit distance 1, so a second correction turns
  it into \<open>ram\<close>.
\<close>

theorem correct_idempotent_counterexample:
  "default_correct ''gm'' = ''gram'' \<and> default_correct ''gram'' = ''ram''
   \<and> default_correct (default_correct ''gm'') \<noteq> default_correct ''gm''"
  by (simp add: default_correct_gm default_correct_gram)


theorem correct_idempotent_without_gram_witness:
  "default_correct ''iPhn 12 128GB rs'' = ''iphone 12 128gb rupees''
   \<and> ''gram'' \<notin> set (split (default_correct ''iPhn 12 128GB rs''))
   \<and> default_correct (default_correct ''iPhn 12 128GB rs'')
       = default_correct ''iPhn 12 128GB rs''"
proof -
  have l: "split (lower ''iPhn 12 128GB rs'') = [''iphn'', ''12'', ''128gb'', ''rs'']"
    by (simp add: lower_eval split_def isspace_def)
  have "''iphone'' \<in> fst ` set ecommerce_terms" by (simp add: ecommerce_terms_def)
  then have "correct_token (symspell_lookup max_edit_distance) ''iphone'' = ''iphone''"
    by (rule correct_token_dict)
  then have t1: "default_token ''iphn'' = ''iphone''"
    by (simp add: default_token_def rewrite_token_def unit_token_def dict_get_def
          REWRITE_RULES_def UNIT_PATTERNS_def)
  have t2: "default_token ''12'' = ''12''"
    by (simp add: default_token_def rewrite_token_def unit_token_def dict_get_def
          REWRITE_RULES_def UNIT_PATTERNS_def correct_token_def should_preserve_def)
  have "should_preserve ''128gb''"
    by (simp add: preserve_eval lower_eval)
  then have t3: "default_token ''128gb'' = ''128gb''"
    by (simp add: default_token_def rewrite_token_def unit_token_def dict_get_def
          REWRITE_RULES_def UNIT_PATTERNS_def correct_token_def)
  have t4: "default_token ''rs'' = ''rupees''"
    by (simp add: default_token_def rewrite_token_def unit_token_def dict_get_def
          REWRITE_RULES_def UNIT_PATTERNS_def correct_token_def should_preserve_def)
  have v: "default_correct ''iPhn 12 128GB rs'' = ''iphone 12 128gb rupees''"
    by (simp add: default_correct_tokens l t1 t2 t3 t4)
  have "split ''iphone 12 128gb rupees'' = [''iphone'', ''12'', ''128gb'', ''rupees'']"
    by (simp add: split_def isspace_def ord_def)
  with v have g: "''gram'' \<notin> set (split (default_correct ''iPhn 12 128GB rs''))"
    by simp
  from g have "default_correct (default_correct ''iPhn 12 128GB rs'')
                 = default_correct ''iPhn 12 128GB rs''"
    by (rule correct_idempotent_without_gram)
  with v g show ?thesis by blast
qed

subsection \<open>The corrector on the larger alphabet\<close>

text \<open>
  On texts of code points up to 255 the two models of the corrector agree, for lookups that
  agree on such tokens.
\<close>

lemma latin1_text_utext: "latin1_text (utext s) = Some s"
  by (induction s) (simp_all add: utext_def)

lemma utext_eq_iff: "utext a = utext b \<longleftrightarrow> a = b"
  by (simp add: utext_def inj_map_eq_map inj_def)

lemma utext_eq_Nil: "utext s = [] \<longleftrightarrow> s = []"
  by (simp add: utext_def)

lemma utext_ne_taka: "utext t \<noteq> [BengaliTta, BengaliAa, BengaliKa, BengaliAa]"
  by (cases t) (simp_all add: utext_def)

lemma utext_ne_rupee: "utext t \<noteq> [RupeeSign]"
  by (cases t) (simp_all add: utext_def)

lemma lower_u_utext: "lower_u (utext s) = utext (lower s)"
  by (simp add: lower_u_def utext_def lower_def lower_char_u_def)

lemma utext_Cons: "utext (c # s) = Latin1 c # utext s"
  by (simp add: utext_def)

lemma utext_snoc: "utext (cur @ [c]) = utext cur @ [Latin1 c]"
  by (simp add: utext_def)

lemma isspace_u_Latin1: "isspace_u (Latin1 c) = isspace c"
  by (simp add: isspace_u_def)

lemma split_at_utext:
  "split_at isspace_u (utext cur) (utext s) = map utext (split_at isspace cur s)"
proof (induction s arbitrary: cur)
  case Nil
  show ?case by (simp add: utext_def)
next
  case (Cons c s)
  have a: "split_at isspace_u (utext cur @ [Latin1 c]) (utext s)
             = map utext (split_at isspace (cur @ [c]) s)"
    using Cons.IH [of "cur @ [c]"] by (simp only: utext_snoc)
  have b: "split_at isspace_u [] (utext s) = map utext (split_at isspace [] s)"
    using Cons.IH [of "[]"] by (simp add: utext_def)
  show ?case by (simp add: utext_Cons isspace_u_Latin1 utext_eq_Nil a b)
qed

lemma split_u_utext: "split_u (utext s) = map utext (split s)"
  using split_at_utext [of "[]" s] by (simp add: split_u_def split_def utext_def)

lemma join_utext: "join [Latin1 CHR '' ''] (map utext ts) = utext (join '' '' ts)"
  by (induction "'' ''" ts rule: join.induct) (simp_all add: utext_def)

lemma map_of_utext:
  "map_of (map (\<lambda>(k, v). (utext k, utext v)) d) (utext t) = map_option utext (map_of d t)"
  by (induction d) (auto simp: utext_eq_iff)

lemma rewrite_token_u_utext: "rewrite_token_u (utext t) = utext (rewrite_token t)"
  by (simp add: rewrite_token_u_def rewrite_token_def dict_get_def REWRITE_RULES_u_def
        map_of_utext split: option.splits)

lemma unit_token_u_utext: "unit_token_u (utext t) = utext (unit_token t)"
  by (simp add: unit_token_u_def unit_token_def dict_get_def UNIT_PATTERNS_u_def
        UNIT_PATTERNS_def utext_eq_iff utext_ne_taka utext_ne_rupee)

lemma length_utext: "length (utext t) = length t"
  by (simp add: utext_def)

lemma should_preserve_u_utext: "should_preserve_u (utext t) = should_preserve t"
  by (simp add: should_preserve_u_def should_preserve_def latin1_text_utext length_utext)

lemma correct_token_u_utext:
  assumes "\<forall>s. lookup_u (utext s) = map (\<lambda>(term, d, c). (utext term, d, c)) (lookup s)"
  shows "correct_token_u lookup_u (utext t) = utext (correct_token lookup t)"
proof (cases "lookup t")
  case Nil
  with assms have "lookup_u (utext t) = []" by simp
  with Nil show ?thesis
    by (simp add: correct_token_u_def correct_token_def symspell_correct_u_def
          symspell_correct_def should_preserve_u_utext)
next
  case (Cons x xs)
  obtain w d c where x: "x = (w, d, c)" by (cases x)
  from assms Cons x
  have "lookup_u (utext t) = (utext w, d, c) # map (\<lambda>(term, d, c). (utext term, d, c)) xs"
    by simp
  with Cons x show ?thesis
    by (simp add: correct_token_u_def correct_token_def symspell_correct_u_def
          symspell_correct_def should_preserve_u_utext sugg_distance_def sugg_term_def)
qed

lemma normalize_units_u_utext: "normalize_units_u (utext s) = utext (normalize_units s)"
proof -
  have "map unit_token_u (map utext (split (lower s))) = map utext (map unit_token (split (lower s)))"
    by (simp add: unit_token_u_utext)
  then show ?thesis
    by (simp only: normalize_units_u_def normalize_units_def lower_u_utext split_u_utext join_utext)
qed

lemma apply_rewrite_rules_u_utext: "apply_rewrite_rules_u (utext s) = utext (apply_rewrite_rules s)"
proof -
  have "map rewrite_token_u (map utext (split (lower s)))
          = map utext (map rewrite_token (split (lower s)))"
    by (simp add: rewrite_token_u_utext)
  then show ?thesis
    by (simp only: apply_rewrite_rules_u_def apply_rewrite_rules_def lower_u_utext split_u_utext
          join_utext)
qed

lemma correct_u_latin1:
  assumes "\<forall>s. lookup_u (utext s) = map (\<lambda>(term, d, c). (utext term, d, c)) (lookup s)"
  shows "correct_u lookup_u (utext text) units = utext (correct lookup text units)"
proof -
  let ?ts = "split (apply_rewrite_rules text)"
  have "map (correct_token_u lookup_u) (map utext ?ts) = map utext (map (correct_token lookup) ?ts)"
    using correct_token_u_utext [OF assms] by simp
  then have "join [Latin1 CHR '' ''] (map (correct_token_u lookup_u) (split_u (apply_rewrite_rules_u (utext text))))
               = utext (join '' '' (map (correct_token lookup) ?ts))"
    by (simp only: apply_rewrite_rules_u_utext split_u_utext join_utext)
  then show ?thesis
    by (simp add: correct_u_def correct_def correct_cached_u_def correct_cached_def Let_def
          normalize_units_u_utext utext_eq_Nil) (simp add: utext_def)
qed

text \<open>Lower-casing twice is lower-casing once, also on the larger alphabet.\<close>

lemma lower_char_u_idem: "lower_char_u (lower_char_u c) = lower_char_u c"
  by (cases c) (simp_all add: lower_char_u_def lower_char_idem)

lemma isspace_u_lower_char: "isspace_u (lower_char_u c) = isspace_u c"
  by (cases c) (simp_all add: lower_char_u_def isspace_u_def isspace_lower_char)

lemma lower_u_idem: "lower_u (lower_u s) = lower_u s"
  by (simp add: lower_u_def lower_char_u_idem)

lemma lower_u_eq_Nil: "lower_u s = [] \<longleftrightarrow> s = []"
  by (simp add: lower_u_def)

lemma lower_u_fixed: "lower_u s = s \<longleftrightarrow> (\<forall>c \<in> set s. lower_char_u c = c)"
  by (induction s) (auto simp: lower_u_def)

lemma lower_u_lower_u_fixed: "\<forall>c \<in> set (lower_u s). lower_char_u c = c"
  using lower_u_idem [of s] by (simp only: lower_u_fixed)

lemma lower_char_u_space: "lower_char_u (Latin1 CHR '' '') = Latin1 CHR '' ''"
  using not_isupper_space by (simp add: lower_char_u_def lower_char_def)

lemma isspace_u_space: "isspace_u (Latin1 CHR '' '')"
  by (simp add: isspace_u_def isspace_space)

lemma utext_lowered: "no_upper s \<Longrightarrow> lower_u (utext s) = utext s"
  by (induction s) (auto simp: no_upper_def lower_u_def utext_def lower_char_u_def lower_char_def)

lemma utext_token: "is_token s \<Longrightarrow> is_token_u (utext s)"
  by (auto simp: is_token_def is_token_u_def utext_def list_all_iff isspace_u_def)

lemma unit_values_u_ok: "\<forall>v \<in> snd ` set UNIT_PATTERNS_u. is_token_u v \<and> lower_u v = v"
proof -
  have "is_token ''rupees'' \<and> no_upper ''rupees''" "is_token ''pieces'' \<and> no_upper ''pieces''"
    "is_token ''kilogram'' \<and> no_upper ''kilogram''" "is_token ''gram'' \<and> no_upper ''gram''"
    "is_token ''liter'' \<and> no_upper ''liter''"
    "is_token ''milliliter'' \<and> no_upper ''milliliter''"
    using unit_values_ok by (simp_all add: UNIT_PATTERNS_def)
  then show ?thesis by (simp add: UNIT_PATTERNS_u_def utext_token utext_lowered)
qed

lemma split_u_is_token: "t \<in> set (split_u s) \<Longrightarrow> is_token_u t"
  using split_at_pieces [of t isspace_u "[]" s]
  by (simp add: split_u_def is_token_u_def list_all_iff)

lemma split_u_lowered:
  assumes "lower_u s = s" and "t \<in> set (split_u s)"
  shows "lower_u t = t"
proof -
  from assms(2) have "set t \<subseteq> set s"
    using split_at_chars [of t isspace_u "[]" s] by (simp add: split_u_def)
  moreover from assms(1) have "\<forall>c \<in> set s. lower_char_u c = c" by (simp only: lower_u_fixed)
  ultimately have "\<forall>c \<in> set t. lower_char_u c = c" by blast
  then show ?thesis by (simp only: lower_u_fixed)
qed

lemma split_u_join:
  "\<forall>t \<in> set ts. is_token_u t \<Longrightarrow> split_u (join [Latin1 CHR '' ''] ts) = ts"
  unfolding split_u_def
  by (rule split_at_join) (auto simp: isspace_u_space is_token_u_def list_all_iff)

lemma lowered_join:
  "\<forall>t \<in> set ts. lower_u t = t \<Longrightarrow>
   lower_u (join [Latin1 CHR '' ''] ts) = join [Latin1 CHR '' ''] ts"
proof (induction "[Latin1 CHR '' '']" ts rule: join.induct)
  case 1
  show ?case by (simp add: lower_u_def)
next
  case (2 x)
  then show ?case by simp
next
  case (3 x y ys)
  then have "lower_u x = x"
    and "lower_u (join [Latin1 CHR '' ''] (y # ys)) = join [Latin1 CHR '' ''] (y # ys)"
    by simp_all
  then have "map lower_char_u x = x"
    and "map lower_char_u (join [Latin1 CHR '' ''] (y # ys)) = join [Latin1 CHR '' ''] (y # ys)"
    by (simp_all add: lower_u_def)
  then show ?case by (simp add: lower_u_def lower_char_u_space)
qed

lemma unit_token_u_ok:
  "is_token_u t \<Longrightarrow> lower_u t = t \<Longrightarrow>
   is_token_u (unit_token_u t) \<and> lower_u (unit_token_u t) = unit_token_u t"
  using dict_get_cases [of UNIT_PATTERNS_u t] unit_values_u_ok
  by (auto simp: unit_token_u_def)

lemma normalize_units_u_ok:
  "lower_u (normalize_units_u text) = normalize_units_u text
   \<and> join [Latin1 CHR '' ''] (split_u (normalize_units_u text)) = normalize_units_u text"
proof -
  let ?ts = "split_u (lower_u text)"
  have "lower_u (lower_u text) = lower_u text" by (rule lower_u_idem)
  then have ts: "\<forall>t \<in> set ?ts. is_token_u t \<and> lower_u t = t"
    using split_u_is_token split_u_lowered by blast
  then have us: "\<forall>t \<in> set (map unit_token_u ?ts). is_token_u t \<and> lower_u t = t"
    using unit_token_u_ok by auto
  then have "lower_u (join [Latin1 CHR '' ''] (map unit_token_u ?ts))
               = join [Latin1 CHR '' ''] (map unit_token_u ?ts)"
    by (intro lowered_join) blast
  moreover from us
  have "split_u (join [Latin1 CHR '' ''] (map unit_token_u ?ts)) = map unit_token_u ?ts"
    by (intro split_u_join) blast
  ultimately show ?thesis by (simp add: normalize_units_u_def)
qed

lemma apply_rewrite_rules_u_lower:
  "apply_rewrite_rules_u (lower_u text) = apply_rewrite_rules_u text"
  by (simp add: apply_rewrite_rules_u_def lower_u_idem)

lemmas corrector_u_eval = correct_u_def correct_cached_u_def apply_rewrite_rules_u_def
  normalize_units_u_def lower_u_def lower_char_u_def split_u_def isspace_u_def
  rewrite_token_u_def unit_token_u_def dict_get_def REWRITE_RULES_u_def UNIT_PATTERNS_u_def
  REWRITE_RULES_def UNIT_PATTERNS_def utext_def correct_token_u_def should_preserve_u_def

lemma correct_u_double_struck: "correct_u lookup [DoubleStruckC] True = [DoubleStruckC]"
  by (simp add: corrector_u_eval)

text \<open>
  The claim as stated, that the result contains no upper-case character, fails for an
  upper-case character that has no lower-case form: \<open>lower()\<close> leaves U+2102 unchanged,
  the token is shorter than three characters and therefore preserved without a dictionary
  lookup, it is a key of neither table, and so \<open>correct\<close> returns the upper-case
  character it was given, whatever the lookup would have returned.
\<close>

theorem correct_uppercase_counterexample:
  "correct_u no_suggestions [DoubleStruckC] True = [DoubleStruckC]
   \<and> isupper_u DoubleStruckC
   \<and> \<not> no_upper_u (correct_u no_suggestions [DoubleStruckC] True)"
  by (simp add: corrector_u_eval no_upper_u_def isupper_u_def)

text \<open>
  C10, as amended. For every text over the larger alphabet and whatever the dictionary
  lookup returns, the string that \<open>correct\<close> returns (with unit normalization, the
  default) is unchanged by \<open>lower()\<close>, so that an upper-case character in it is one that
  \<open>lower()\<close> maps to itself; it is its tokens joined by single spaces; and with either
  setting of the flag \<open>correct text\<close> equals \<open>correct\<close> of the lower-cased text. For
  every text of code points up to 255 the result contains no upper-case character at all.
\<close>

theorem correct_lowered_single_spaced:
  "lower_u (correct_u lookup text True) = correct_u lookup text True
   \<and> join [Latin1 CHR '' ''] (split_u (correct_u lookup text True)) = correct_u lookup text True
   \<and> correct_u lookup text units = correct_u lookup (lower_u text) units
   \<and> no_upper (correct lookup1 text1 True)"
proof (intro conjI)
  show "lower_u (correct_u lookup text True) = correct_u lookup text True"
    using normalize_units_u_ok by (simp add: correct_u_def correct_cached_u_def Let_def lower_u_def)
  show "join [Latin1 CHR '' ''] (split_u (correct_u lookup text True)) = correct_u lookup text True"
    using normalize_units_u_ok by (simp add: correct_u_def correct_cached_u_def Let_def split_u_def)
  show "correct_u lookup text units = correct_u lookup (lower_u text) units"
    by (simp add: correct_u_def correct_cached_u_def apply_rewrite_rules_u_lower lower_u_eq_Nil)
  show "no_upper (correct lookup1 text1 True)"
    using correct_latin1_lowercase [of lookup1 text1] by (rule conjunct1)
qed

theorem correct_lowered_single_spaced_witness:
  "correct_u no_suggestions (utext ''GM '' @ [RupeeSign, Latin1 CHR '' '', DoubleStruckC]) True
     = utext ''gram rupees '' @ [DoubleStruckC]
   \<and> lower_u (utext ''gram rupees '' @ [DoubleStruckC]) = utext ''gram rupees '' @ [DoubleStruckC]
   \<and> join [Latin1 CHR '' ''] (split_u (utext ''gram rupees '' @ [DoubleStruckC]))
       = utext ''gram rupees '' @ [DoubleStruckC]
   \<and> correct_u no_suggestions (lower_u (utext ''GM '' @ [RupeeSign, Latin1 CHR '' '', DoubleStruckC])) True
       = utext ''gram rupees '' @ [DoubleStruckC]
   \<and> no_upper (correct (symspell_lookup max_edit_distance) ''GM RS'' True)"
proof -
  let ?t = "utext ''GM '' @ [RupeeSign, Latin1 CHR '' '', DoubleStruckC]"
  let ?r = "utext ''gram rupees '' @ [DoubleStruckC]"
  have v: "correct_u no_suggestions ?t True = ?r"
    by (simp add: corrector_u_eval lower_eval isspace_def)
  note c = correct_lowered_single_spaced
             [of no_suggestions ?t True "symspell_lookup max_edit_distance" "''GM RS''"]
  from c have "correct_u no_suggestions ?t True = correct_u no_suggestions (lower_u ?t) True"
    by (rule conjunct1 [OF conjunct2 [OF conjunct2]])
  with v have c3: "correct_u no_suggestions (lower_u ?t) True = ?r" by simp
  from c have c1: "lower_u ?r = ?r" unfolding v by (rule conjunct1)
  from c have c2: "join [Latin1 CHR '' ''] (split_u ?r) = ?r"
    unfolding v by (rule conjunct1 [OF conjunct2])
  from c have c4: "no_upper (correct (symspell_lookup max_edit_distance) ''GM RS'' True)"
    by (rule conjunct2 [OF conjunct2 [OF conjunct2]])
  from v c1 c2 c3 c4 show ?thesis by (intro conjI)
qed

section \<open>Properties of the smart romanized detector\<close>


















section \<open>Properties of language identification\<close>

lemma detect_rule_b:
  assumes "text \<noteq> []"
    and "word_scripts_of tagged \<noteq> []"
    and "list_all (\<lambda>s. s = ''Latin'') (word_scripts_of tagged)"
    and "c > 0.85"
  shows "detect onnx_session use_smart_checkpoint text tagged (Some ''en'') c =
           \<lparr>label = ''pure_english'', confidence = c,
            detection_method = ''fast_lane'', details_romanized_language = None,
            skip_step5 = Some True\<rparr>"
proof -
  from assms have h: "detect_heuristic text tagged (Some ''en'') c =
           \<lparr>label = ''pure_english'', confidence = c,
            detection_method = ''fast_lane'', details_romanized_language = None,
            skip_step5 = None\<rparr>"
    by (rule detect_heuristic_rule_b)
  from assms(4) have "c \<ge> 0.75" by simp
  then show ?thesis
    unfolding detect_def h Let_def by (simp add: should_skip_step5_def)
qed

lemma first_max_count_mem: "first_max_count xs best ks \<in> insert best (set ks)"
  by (induction ks arbitrary: best) (auto split: if_splits)

lemma dominant_key_mem: "xs \<noteq> [] \<Longrightarrow> dominant_key xs \<in> set xs"
proof -
  assume "xs \<noteq> []"
  have s: "set (keys_in_order xs) = set xs" by (simp add: keys_in_order_def)
  with \<open>xs \<noteq> []\<close> obtain k ks where k: "keys_in_order xs = k # ks"
    by (cases "keys_in_order xs") auto
  then have "dominant_key xs \<in> insert k (set ks)"
    using first_max_count_mem [of xs k ks] by (simp add: dominant_key_def)
  with k s show ?thesis by auto
qed

lemma script_fast_cases:
  "detect_script_unicode_fast c = ''Space'' \<or> detect_script_unicode_fast c = ''Number''
   \<or> detect_script_unicode_fast c = ''Latin''"
proof -
  have l: "ord c \<le> 127 \<or> (128 \<le> ord c \<and> ord c \<le> 255)"
    using ord_less_256 [of c] by linarith
  show ?thesis
  proof (cases "isspace c")
    case True
    then show ?thesis by (simp add: detect_script_unicode_fast_def)
  next
    case ns: False
    show ?thesis
    proof (cases "isdigit c")
      case True
      with ns show ?thesis by (simp add: detect_script_unicode_fast_def)
    next
      case False
      with ns l have "detect_script_unicode_fast c = ''Latin''"
        unfolding detect_script_unicode_fast_def Let_def by (simp only: if_False if_True)
      then show ?thesis by blast
    qed
  qed
qed

lemma dominant_latin:
  assumes "filter (\<lambda>k. k \<notin> set [''Number'', ''Space'', ''Other''])
             (map detect_script_unicode_fast t) \<noteq> []"
  shows "dominant_key (filter (\<lambda>k. k \<notin> set [''Number'', ''Space'', ''Other''])
             (map detect_script_unicode_fast t)) = ''Latin''"
proof -
  let ?f = "filter (\<lambda>k. k \<notin> set [''Number'', ''Space'', ''Other''])
                   (map detect_script_unicode_fast t)"
  from assms have "dominant_key ?f \<in> set ?f" by (rule dominant_key_mem)
  then obtain c where c: "dominant_key ?f = detect_script_unicode_fast c"
    and n: "detect_script_unicode_fast c \<noteq> ''Number''"
           "detect_script_unicode_fast c \<noteq> ''Space''"
    by auto
  from script_fast_cases [of c] n have "detect_script_unicode_fast c = ''Latin''"
    by blast
  with c show ?thesis by simp
qed

lemma detect_token_script_cases:
  "detect_token_script t = ''Unknown'' \<or> detect_token_script t = ''Latin''
   \<or> detect_token_script t = ''Number'' \<or> detect_token_script t = ''Other''"
proof (cases "t = []")
  case True
  then show ?thesis by (simp add: detect_token_script_def)
next
  case ne: False
  let ?f = "filter (\<lambda>k. k \<notin> set [''Number'', ''Space'', ''Other''])
                   (map detect_script_unicode_fast t)"
  show ?thesis
  proof (cases "?f = []")
    case False
    then have "dominant_key ?f = ''Latin''" by (rule dominant_latin)
    with ne False have "detect_token_script t = ''Latin''"
      unfolding detect_token_script_def Let_def by (simp only: if_False if_True not_False_eq_True)
    then show ?thesis by blast
  next
    case True
    with ne have "detect_token_script t = ''Number'' \<or> detect_token_script t = ''Other''"
      unfolding detect_token_script_def Let_def
      by (simp only: if_False if_True not_True_eq_False split: if_splits) blast
    then show ?thesis by blast
  qed
qed

lemma tag_token_cases:
  "get_script (tag_token t) = ''Unknown'' \<or> get_script (tag_token t) = ''Latin''
   \<or> get_script (tag_token t) = ''Number'' \<or> get_script (tag_token t) = ''Other''"
proof (cases "t \<noteq> [] \<and> ord (hd t) < 128")
  case True
  then show ?thesis
    by (cases "str_isdigit t") (simp_all add: tag_token_def get_script_def)
next
  case False
  have "\<not> (2304 \<le> ord (hd t))" using ord_less_256 [of "hd t"] by simp
  moreover have "\<not> (2432 \<le> ord (hd t))" using ord_less_256 [of "hd t"] by simp
  ultimately have "get_script (tag_token t) = detect_token_script t"
    using False by (auto simp: tag_token_def get_script_def)
  with detect_token_script_cases [of t] show ?thesis by simp
qed

lemma tag_token_latin:
  "t \<noteq> [] \<Longrightarrow> ord (hd t) < 128 \<Longrightarrow> \<not> str_isdigit t \<Longrightarrow> get_script (tag_token t) = ''Latin''"
  by (simp add: tag_token_def get_script_def)

lemma tokenize_nonempty: "t \<in> set (tokenize_icu_style pre_tokenize s) \<Longrightarrow> t \<noteq> []"
  by (auto simp: tokenize_icu_style_def split: if_splits)

lemma word_script_latin:
  assumes "x \<in> set (word_scripts_of (map tag_token toks))"
  shows "x = ''Latin''"
proof -
  from assms obtain t where x: "x = get_script (tag_token t)"
    and n: "x \<noteq> ''Number''" "x \<noteq> ''Other''" "x \<noteq> ''Unknown''"
    unfolding word_scripts_of_def by auto
  from tag_token_cases [of t] x n show ?thesis by blast
qed

lemma word_scripts_all_latin:
  "list_all (\<lambda>s. s = ''Latin'') (word_scripts_of (map tag_token toks))"
  unfolding list_all_iff using word_script_latin by blast

lemma word_scripts_nonempty:
  assumes "t \<in> set toks" "get_script (tag_token t) = ''Latin''"
  shows "word_scripts_of (map tag_token toks) \<noteq> []"
proof -
  from assms have "''Latin'' \<in> set (word_scripts_of (map tag_token toks))"
    by (force simp: word_scripts_of_def)
  then show ?thesis by auto
qed




lemma contains_nonempty: "contains s w \<Longrightarrow> w \<noteq> [] \<Longrightarrow> s \<noteq> []"
  by (cases s) auto

lemma english_indicators_nonempty: "\<forall>w \<in> set english_indicators. w \<noteq> []"
  by (simp add: english_indicators_def)

lemma detect_script_english:
  assumes eng: "list_ex (\<lambda>word. contains (lower s) word) english_indicators"
    and ascii: "list_all (\<lambda>c. ord c < 128) (filter (\<lambda>c. \<not> isspace c) s)"
    and nomark: "\<forall>w \<in> set (split (lower s)). w \<notin> set hindi_words \<and> w \<notin> set bengali_words"
  shows "s \<noteq> []" and "detect_script_uncached fasttext s = (''en'', 0.95)"
proof -
  from eng obtain w where "w \<in> set english_indicators" "contains (lower s) w"
    by (auto simp: list_ex_iff)
  with english_indicators_nonempty have "lower s \<noteq> []"
    using contains_nonempty by blast
  then show ne: "s \<noteq> []" by (simp add: lower_def)
  from nomark have "filter (\<lambda>word. word \<in> set hindi_words) (split (lower s)) = []"
    and "filter (\<lambda>word. word \<in> set bengali_words) (split (lower s)) = []"
    by (simp_all add: filter_empty_conv)
  with ne eng ascii show "detect_script_uncached fasttext s = (''en'', 0.95)"
    by (simp add: detect_script_uncached_def Let_def)
qed

text \<open>
  C3, as amended. For every string whose characters other than white space are ASCII, whose
  lower-cased form contains one of the tokenizer's English indicator words, and none of
  whose words is one of the romanized Hindi or Bengali marker words, language
  identification returns \<open>en\<close> with confidence 0.95; and if the tokenizer yields at least
  one token that starts with an ASCII character and is not a digit string, the code-mix
  classifier labels the query \<open>pure_english\<close> (Fast Lane, confidence 0.95, skip flag set).
\<close>

theorem english_fast_path:
  assumes eng: "list_ex (\<lambda>word. contains (lower s) word) english_indicators"
    and ascii: "list_all (\<lambda>c. ord c < 128) (filter (\<lambda>c. \<not> isspace c) s)"
    and nomark: "\<forall>w \<in> set (split (lower s)). w \<notin> set hindi_words \<and> w \<notin> set bengali_words"
  shows "detect_script_uncached fasttext s = (''en'', 0.95)
         \<and> ((\<exists>t \<in> set (tokenize_icu_style pre_tokenize s). ord (hd t) < 128 \<and> \<not> str_isdigit t)
              \<longrightarrow> snd (steps_3_4 pre_tokenize fasttext s)
                    = \<lparr>label = ''pure_english'', confidence = 0.95,
                       detection_method = ''fast_lane'', details_romanized_language = None,
                       skip_step5 = Some True\<rparr>)"
proof (intro conjI impI)
  from assms show d: "detect_script_uncached fasttext s = (''en'', 0.95)"
    by (rule detect_script_english(2))
  from assms have ne: "s \<noteq> []" by (rule detect_script_english(1))
  assume "\<exists>t \<in> set (tokenize_icu_style pre_tokenize s). ord (hd t) < 128 \<and> \<not> str_isdigit t"
  then obtain t where t: "t \<in> set (tokenize_icu_style pre_tokenize s)"
    "ord (hd t) < 128" "\<not> str_isdigit t" by blast
  let ?toks = "tokenize_icu_style pre_tokenize s"
  from t(1) have "t \<noteq> []" by (rule tokenize_nonempty)
  with t have "get_script (tag_token t) = ''Latin''" by (simp add: tag_token_latin)
  with t(1) have "word_scripts_of (map tag_token ?toks) \<noteq> []"
    by (rule word_scripts_nonempty)
  with ne have "detect None True s (map tag_token ?toks) (Some ''en'') 0.95
           = \<lparr>label = ''pure_english'', confidence = 0.95,
              detection_method = ''fast_lane'', details_romanized_language = None,
              skip_step5 = Some True\<rparr>"
    by (intro detect_rule_b word_scripts_all_latin) simp_all
  moreover from ne d have "snd (steps_3_4 pre_tokenize fasttext s)
        = detect None True s (map tag_token ?toks) (Some ''en'') 0.95"
    by (simp add: steps_3_4_def tokenize_step3_strict_def Let_def)
  ultimately show "snd (steps_3_4 pre_tokenize fasttext s)
                    = \<lparr>label = ''pure_english'', confidence = 0.95,
                       detection_method = ''fast_lane'', details_romanized_language = None,
                       skip_step5 = Some True\<rparr>"
    by (rule trans [rotated])
qed


lemmas text_eval = split_def isspace_def ord_def no_upper_def isupper_def strip_def

theorem english_fast_path_witness:
  "detect_script_uncached failing_model ''wireless headphones under 5000'' = (''en'', 0.95)
   \<and> snd (steps_3_4 split failing_model ''wireless headphones under 5000'')
       = \<lparr>label = ''pure_english'', confidence = 0.95, detection_method = ''fast_lane'',
          details_romanized_language = None, skip_step5 = Some True\<rparr>"
proof -
  let ?s = "''wireless headphones under 5000''"
  have l: "lower ?s = ?s" by (rule lower_no_upper) (simp add: text_eval)
  have w: "split ?s = [''wireless'', ''headphones'', ''under'', ''5000'']"
    by (simp add: text_eval)
  have eng: "list_ex (\<lambda>word. contains (lower ?s) word) english_indicators"
    unfolding l by (simp add: english_indicators_def startswith_def)
  have ascii: "list_all (\<lambda>c. ord c < 128) (filter (\<lambda>c. \<not> isspace c) ?s)"
    by (simp add: text_eval)
  have nomark: "\<forall>w \<in> set (split (lower ?s)). w \<notin> set hindi_words \<and> w \<notin> set bengali_words"
    unfolding l w by (simp add: hindi_words_def bengali_words_def)
  have "tokenize_icu_style split ?s = [''wireless'', ''headphones'', ''under'', ''5000'']"
    unfolding tokenize_icu_style_def w by (simp add: text_eval)
  then have tok: "\<exists>t \<in> set (tokenize_icu_style split ?s). ord (hd t) < 128 \<and> \<not> str_isdigit t"
    by (simp add: str_isdigit_def isdigit_def ord_def)
  from english_fast_path [OF eng ascii nomark, of failing_model split] tok
  show ?thesis by blast
qed

text \<open>
  The claim as stated fails when the text also has two romanized marker words: they are
  checked before the English indicators. The query below has no Indic character and two
  English markers, and is identified as \<open>hi\<close> with confidence 0.65 and labelled
  \<open>romanized_indic\<close>.
\<close>

theorem english_fast_path_counterexample:
  "\<not> has_native_indic ''mujhe wireless headphone chahiye''
   \<and> count_english_markers ''mujhe wireless headphone chahiye'' = 2
   \<and> detect_script_uncached failing_model ''mujhe wireless headphone chahiye'' = (''hi'', 0.65)
   \<and> label (snd (steps_3_4 split failing_model ''mujhe wireless headphone chahiye''))
       = ''romanized_indic''"
proof -
  let ?s = "''mujhe wireless headphone chahiye''"
  let ?toks = "[''mujhe'', ''wireless'', ''headphone'', ''chahiye'']"
  have l: "lower ?s = ?s" by (rule lower_no_upper) (simp add: text_eval)
  have w: "split ?s = ?toks" by (simp add: text_eval)
  have n: "\<not> has_native_indic ?s"
    by (simp add: has_native_indic_def native_indic_char_def ord_def)
  have r: "word_runs ?s = ?toks"
    by (simp add: word_runs_def re_word_def isalpha_def isdigit_def ord_def)
  have m: "count_english_markers ?s = 2"
    by (simp add: count_english_markers_def re_search_words_def findall_count_def r
          PURE_ENGLISH_PATTERNS_def)
  have d: "detect_script_uncached failing_model ?s = (''hi'', 0.65)"
    unfolding detect_script_uncached_def l w Let_def
    by (simp add: hindi_words_def bengali_words_def)
  have t: "tokenize_icu_style split ?s = ?toks"
    unfolding tokenize_icu_style_def w by (simp add: text_eval)
  have g: "map tag_token ?toks
             = [\<lparr>token_text = ''mujhe'', script_tag = Some ''Latin''\<rparr>,
                \<lparr>token_text = ''wireless'', script_tag = Some ''Latin''\<rparr>,
                \<lparr>token_text = ''headphone'', script_tag = Some ''Latin''\<rparr>,
                \<lparr>token_text = ''chahiye'', script_tag = Some ''Latin''\<rparr>]"
    by (simp add: tag_token_def str_isdigit_def isdigit_def ord_def)
  have ws: "word_scripts_of (map tag_token ?toks) = [''Latin'', ''Latin'', ''Latin'', ''Latin'']"
    unfolding g by (simp add: word_scripts_of_def get_script_def)
  have h: "detect_heuristic ?s (map tag_token ?toks) (Some ''hi'') 0.65 = ambiguous_heuristic"
    unfolding detect_heuristic_def ws Let_def
    by (simp add: native_scripts_def)
  have c: "label (classify_smart_checkpoint None ?s (map tag_token ?toks) (Some ''hi'') 0.65)
             = ''romanized_indic''
           \<and> confidence (classify_smart_checkpoint None ?s (map tag_token ?toks) (Some ''hi'') 0.65)
             > 0.6"
    unfolding classify_smart_checkpoint_def ws Let_def
    by (simp add: native_scripts_def hint_in_def native_langs_def case_prod_beta)
  have "label (detect None True ?s (map tag_token ?toks) (Some ''hi'') 0.65) = ''romanized_indic''"
    unfolding detect_def h Let_def using c by (simp add: ambiguous_heuristic_def)
  moreover have "snd (steps_3_4 split failing_model ?s)
                   = detect None True ?s (map tag_token ?toks) (Some ''hi'') 0.65"
    by (simp add: steps_3_4_def tokenize_step3_strict_def Let_def d t)
  ultimately show ?thesis using n m d by simp
qed

section \<open>Properties of the input adapter\<close>

lemma join_Cons_nonempty: "x \<noteq> [] \<Longrightarrow> join sep (x # xs) \<noteq> []"
  by (cases xs) simp_all

lemma product_to_text_nonempty: "product_name p \<noteq> [] \<Longrightarrow> product_to_text p \<noteq> []"
  by (simp add: product_to_text_def Let_def join_Cons_nonempty)

lemma is_url_nonempty: "is_url s \<Longrightarrow> s \<noteq> []"
  by (auto simp: is_url_def lower_def startswith_def domain_extension_at_def)

lemma expand_url_nonempty:
  assumes "\<forall>u f. head_url w u = Some f \<longrightarrow> f \<noteq> []" and "u \<noteq> []"
  shows "expand_url w u \<noteq> []"
  using assms by (auto simp: expand_url_def Let_def split: option.splits)

lemma scrape_product_url_name: "scrape_product_url w u = Some p \<Longrightarrow> product_name p \<noteq> []"
  by (auto simp: scrape_product_url_def split: option.splits if_splits)

lemma set_dict_set_subset: "set (dict_set c k v) \<subseteq> insert (k, v) (set c)"
  by (induction c) (auto split: if_splits)

lemma set_cache_product_subset: "set (cache_product c k v) \<subseteq> insert (k, v) (set c)"
  using set_dict_set_subset [of "dict_del c (fst (hd c))" k v] set_dict_set_subset [of c k v]
  by (auto simp: cache_product_def Let_def dict_del_def)

lemma named_products_cache_product:
  "named_products c \<Longrightarrow> product_name p \<noteq> [] \<Longrightarrow> named_products (cache_product c k p)"
  using set_cache_product_subset [of c k p]
  by (auto simp: named_products_def list_all_iff)

lemma named_products_lookup:
  "named_products c \<Longrightarrow> map_of c k = Some p \<Longrightarrow> product_name p \<noteq> []"
  by (auto simp: named_products_def list_all_iff dest: map_of_SomeD)

lemma process_text:
  "\<not> (looks_like_url_fast (strip raw_input) \<and> is_url (strip raw_input)) \<Longrightarrow>
   input_handler_process w c raw_input = (text_result (strip raw_input), c)"
  by (auto simp: input_handler_process_def Let_def)

lemma process_expanded_result:
  assumes "process_expanded w c result0 u = (r, c')"
    and "product_data result0 = None"
  shows "input_type r = input_type result0
         \<and> (case product_data r of
               Some p \<Rightarrow> query_text r = product_to_text p
             | None \<Rightarrow> expanded_url r = Some (query_text r))
         \<and> (\<not> is_shortened_url w u \<and> product_data r = None \<longrightarrow> query_text r = u)"
  using assms
  by (auto simp: process_expanded_def Let_def split: option.splits if_splits)

lemma process_expanded_nonempty:
  assumes "process_expanded w c result0 u = (r, c')"
    and "u \<noteq> []" and "named_products c"
    and "\<forall>u f. head_url w u = Some f \<longrightarrow> f \<noteq> []"
  shows "query_text r \<noteq> [] \<and> named_products c'"
proof -
  let ?e = "if is_shortened_url w u then expand_url w u else u"
  have e: "?e \<noteq> []" using assms(2,4) by (simp add: expand_url_nonempty)
  show ?thesis
    using assms(1,3) e
    by (auto simp: process_expanded_def Let_def product_to_text_nonempty
          named_products_cache_product
          dest: named_products_lookup scrape_product_url_name
          split: option.splits if_splits)
qed

text \<open>
  C7, as amended. Let \<open>s\<close> be the raw input without its leading and trailing white
  space. When \<open>s\<close> is not classified as a URL (it has no URL indicator, or the URL
  pattern does not match), the result is a text result without product data and its
  \<open>query_text\<close> is \<open>s\<close>. When \<open>s\<close> is classified as a URL, \<open>query_text\<close> is the
  text of the product if the result carries product data, and otherwise it is the
  \<open>expanded_url\<close> of the result, which is \<open>s\<close> unless \<open>s\<close> is a shortened URL. If
  \<open>s\<close> is empty so is \<open>query_text\<close>; if \<open>s\<close> is not empty, every cached product has a
  name and the redirect expansion never returns an empty URL, then \<open>query_text\<close> is not
  empty and every product of the new cache has a name.
\<close>

theorem input_handler_query_text:
  assumes "input_handler_process w product_cache raw_input = (r, product_cache')"
  shows "(\<not> (looks_like_url_fast (strip raw_input) \<and> is_url (strip raw_input)) \<longrightarrow>
            input_type r = ''text'' \<and> query_text r = strip raw_input \<and> product_data r = None)
       \<and> (looks_like_url_fast (strip raw_input) \<and> is_url (strip raw_input) \<longrightarrow>
            input_type r = ''url''
            \<and> (case product_data r of
                  Some p \<Rightarrow> query_text r = product_to_text p
                | None \<Rightarrow> expanded_url r = Some (query_text r))
            \<and> (\<not> is_shortened_url w (strip raw_input) \<and> product_data r = None \<longrightarrow>
                  query_text r = strip raw_input))
       \<and> (strip raw_input = [] \<longrightarrow> query_text r = [])
       \<and> (strip raw_input \<noteq> [] \<and> named_products product_cache
            \<and> (\<forall>u f. head_url w u = Some f \<longrightarrow> f \<noteq> []) \<longrightarrow>
            query_text r \<noteq> [] \<and> named_products product_cache')"
proof (cases "looks_like_url_fast (strip raw_input) \<and> is_url (strip raw_input)")
  case False
  with assms have "r = text_result (strip raw_input)" and "product_cache' = product_cache"
    by (simp_all add: process_text)
  with False show ?thesis by (simp add: text_result_def)
next
  case True
  then have ne: "strip raw_input \<noteq> []" by (simp add: is_url_nonempty)
  let ?u = "strip raw_input"
  let ?r0 = "(text_result ?u)\<lparr>input_type := ''url'', original_url := Some ?u\<rparr>"
  let ?quick = "extract_platform_info w ?u"
  let ?hit = "case ?quick of (Some pf, Some pid) \<Rightarrow> map_of product_cache (pf @ '':'' @ pid)
              | _ \<Rightarrow> None"
  show ?thesis
  proof (cases ?hit)
    case (Some cached)
    with True assms
    have r: "r = ?r0\<lparr>platform := fst ?quick, product_id := snd ?quick,
                      expanded_url := Some ?u, product_data := Some cached,
                      query_text := product_to_text cached, cache_hit := Some True\<rparr>"
      and c: "product_cache' = product_cache"
      by (simp_all add: input_handler_process_def Let_def)
    from Some obtain k where "map_of product_cache k = Some cached"
      by (auto split: prod.splits option.splits)
    then have "named_products product_cache \<Longrightarrow> product_name cached \<noteq> []"
      by (simp add: named_products_lookup)
    with True ne r c show ?thesis
      by (auto simp: text_result_def product_to_text_nonempty)
  next
    case None
    with True assms have p: "process_expanded w product_cache ?r0 ?u = (r, product_cache')"
      by (simp add: input_handler_process_def Let_def)
    have "product_data ?r0 = None" by (simp add: text_result_def)
    with p have a: "input_type r = input_type ?r0
         \<and> (case product_data r of
               Some p \<Rightarrow> query_text r = product_to_text p
             | None \<Rightarrow> expanded_url r = Some (query_text r))
         \<and> (\<not> is_shortened_url w ?u \<and> product_data r = None \<longrightarrow> query_text r = ?u)"
      by (rule process_expanded_result)
    have b: "named_products product_cache \<and> (\<forall>u f. head_url w u = Some f \<longrightarrow> f \<noteq> []) \<longrightarrow>
             query_text r \<noteq> [] \<and> named_products product_cache'"
      using process_expanded_nonempty [OF p ne] by blast
    from True ne a b show ?thesis by (simp add: text_result_def)
  qed
qed

lemmas input_eval = input_handler_process_def looks_like_url_fast_def is_url_def text_result_def
  strip_def isspace_def startswith_def domain_extension_at_def re_az_def Let_def
  lower_def lower_char_def isupper_def ord_def chr_def char_of_def bit_Suc_0_iff

lemmas url_eval = process_expanded_def extract_platform_info_def url_domain_def remove_all_def
  is_shortened_url_def URL_SHORTENERS_def expand_url_def pid_at_def asin_at_def myntra_id_at_def
  re_upper_digit_def re_digit_def scrape_product_url_def redirecting_def

lemma redirecting_scraped:
  "input_handler_process (redirecting (Some suitcase)) [] '' https://bit.ly/3abc ''
     = (\<lparr>input_type = ''url'', original_input = ''https://bit.ly/3abc'',
         original_url = Some ''https://bit.ly/3abc'',
         expanded_url = Some ''https://www.flipkart.com/suitcase/p/itm?pid=LUGABC123'',
         query_text = ''Trolley Suitcase Size Cabin price 2499.0 Luggage Skybags'',
         platform = Some ''flipkart'', product_id = Some ''LUGABC123'',
         product_data = Some suitcase, cache_hit = Some False\<rparr>,
        [(''flipkart:LUGABC123'', suitcase)])"
proof -
  have "product_to_text suitcase = ''Trolley Suitcase Size Cabin price 2499.0 Luggage Skybags''"
    by (simp add: product_to_text_def suitcase_def Let_def startswith_def
          lower_def lower_char_def isupper_def ord_def chr_def char_of_def bit_Suc_0_iff)
  moreover have "product_name suitcase \<noteq> []" by (simp add: suitcase_def)
  ultimately show ?thesis
    by (simp add: input_eval url_eval cache_product_def cache_max_size_def)
qed

theorem input_handler_query_text_witness:
  "input_type (fst (input_handler_process (redirecting (Some suitcase)) [] '' https://bit.ly/3abc '')) = ''url''
   \<and> query_text (fst (input_handler_process (redirecting (Some suitcase)) [] '' https://bit.ly/3abc ''))
       = product_to_text suitcase
   \<and> query_text (fst (input_handler_process (redirecting (Some suitcase)) [] '' https://bit.ly/3abc ''))
       \<noteq> []
   \<and> named_products (snd (input_handler_process (redirecting (Some suitcase)) [] '' https://bit.ly/3abc ''))"
proof -
  let ?w = "redirecting (Some suitcase)"
  let ?i = "'' https://bit.ly/3abc ''"
  let ?p = "input_handler_process ?w [] ?i"
  have s: "strip ?i = ''https://bit.ly/3abc''"
    by (simp add: strip_def isspace_def ord_def)
  have u: "looks_like_url_fast (strip ?i) \<and> is_url (strip ?i)"
    unfolding s by (simp add: input_eval)
  have n: "strip ?i \<noteq> [] \<and> named_products []
           \<and> (\<forall>u f. head_url ?w u = Some f \<longrightarrow> f \<noteq> [])"
    unfolding s by (auto simp: named_products_def redirecting_def)
  have d: "product_data (fst ?p) = Some suitcase"
    by (simp add: redirecting_scraped)
  have "?p = (fst ?p, snd ?p)" by simp
  note t = input_handler_query_text [OF this]
  from t u have a: "input_type (fst ?p) = ''url''" by blast
  from t u have "case product_data (fst ?p) of
                   Some p \<Rightarrow> query_text (fst ?p) = product_to_text p
                 | None \<Rightarrow> expanded_url (fst ?p) = Some (query_text (fst ?p))"
    by blast
  with d have b: "query_text (fst ?p) = product_to_text suitcase" by simp
  from t n have c: "query_text (fst ?p) \<noteq> [] \<and> named_products (snd ?p)" by blast
  from a b c show ?thesis by blast
qed

text \<open>
  The claim as stated fails in three ways. For the empty input \<open>query_text\<close> is empty.
  For a text with surrounding white space \<open>query_text\<close> is the stripped text, not the
  original input. And for a shortened URL whose target cannot be scraped \<open>query_text\<close>
  is the expanded URL, not the original input.
\<close>

lemma redirecting_failed_scrape:
  "input_handler_process (redirecting None) [] ''https://bit.ly/3abc''
     = (\<lparr>input_type = ''url'', original_input = ''https://bit.ly/3abc'',
         original_url = Some ''https://bit.ly/3abc'',
         expanded_url = Some ''https://www.flipkart.com/suitcase/p/itm?pid=LUGABC123'',
         query_text = ''https://www.flipkart.com/suitcase/p/itm?pid=LUGABC123'',
         platform = Some ''flipkart'', product_id = Some ''LUGABC123'',
         product_data = None, cache_hit = Some False\<rparr>, [])"
  by (simp add: input_eval url_eval)

theorem input_handler_counterexample:
  "query_text (fst (input_handler_process offline [] [])) = []
   \<and> query_text (fst (input_handler_process offline [] '' phone '')) = ''phone''
   \<and> query_text (fst (input_handler_process offline [] '' phone '')) \<noteq> '' phone ''
   \<and> query_text (fst (input_handler_process (redirecting None) [] ''https://bit.ly/3abc''))
       = ''https://www.flipkart.com/suitcase/p/itm?pid=LUGABC123''"
  by (simp add: redirecting_failed_scrape) (simp add: input_eval)


end
